theory Spec2Isabelle
  imports Complex_Main "HOL-Library.AList" "HOL-Library.Log_Nat"
begin

section \<open>Python values\<close>

text \<open>
  The sync engine (\<^verbatim>\<open>notion_handler.py\<close>, \<^verbatim>\<open>hevy_webhook.py\<close>, \<^verbatim>\<open>full_sync.py\<close>) works on
  \<^verbatim>\<open>Dict[str, Any]\<close> payloads decoded from JSON. A Python value is a \<open>json\<close>; Python's
  \<^verbatim>\<open>None\<close> is \<open>JNull\<close>. A dict is an association list in insertion order, read with
  \<open>map_of\<close> and written with \<open>AList.update\<close>. Strings hold ASCII characters; where Python
  counts or cases code points, a string with a character above 127 ends in \<open>NotModelled\<close>.

  A Python float is an IEEE 754 binary64 value: \<open>Fin q\<close> for the finite value \<open>q\<close>
  (a positive zero is \<open>Fin 0\<close>), \<open>NegZero\<close>, the infinities and \<open>NaN\<close>.
\<close>

datatype pyfloat = Fin rat | NegZero | PosInf | NegInf | NaN

datatype json =
    JNull
  | JBool bool
  | JInt int
  | JFloat pyfloat
  | JStr string
  | JArr "json list"
  | JObj "(string \<times> json) list"

text \<open>
  Exceptions are values. \<open>NotModelled\<close> is not a Python exception: it marks an input on
  which Python's behaviour is outside this model (the repr of a float inside an f-string,
  \<^verbatim>\<open>float\<close> of a string, a dict key that is a number, a non-ASCII string whose code points
  are counted). No theorem below reads \<open>NotModelled\<close> as a raise.
\<close>

datatype exn =
    AttributeError
  | TypeError
  | KeyError
  | IndexError
  | OverflowError
  | ValueError string
  | TimeoutError
  | ClientError string
  | NotModelled

definition bindE :: "exn + 'a \<Rightarrow> ('a \<Rightarrow> exn + 'b) \<Rightarrow> exn + 'b" where
  "bindE m f = (case m of Inl e \<Rightarrow> Inl e | Inr x \<Rightarrow> f x)"

subsection \<open>Truthiness, attribute access, subscripts\<close>

fun truthy :: "json \<Rightarrow> bool" where
  "truthy JNull = False"
| "truthy (JBool b) = b"
| "truthy (JInt n) = (n \<noteq> 0)"
| "truthy (JFloat f) = (f \<noteq> Fin 0 \<and> f \<noteq> NegZero)"
| "truthy (JStr s) = (s \<noteq> [])"
| "truthy (JArr xs) = (xs \<noteq> [])"
| "truthy (JObj kvs) = (kvs \<noteq> [])"

text \<open>\<^verbatim>\<open>x.get(k, d)\<close>: only a dict has \<^verbatim>\<open>get\<close>; a key whose value is null yields None, not \<open>d\<close>.\<close>

fun dict_get :: "json \<Rightarrow> string \<Rightarrow> json \<Rightarrow> exn + json" where
  "dict_get (JObj kvs) k d = Inr (case map_of kvs k of Some v \<Rightarrow> v | None \<Rightarrow> d)"
| "dict_get _ k d = Inl AttributeError"

text \<open>\<^verbatim>\<open>x[0]\<close> and \<^verbatim>\<open>x["k"]\<close>.\<close>

fun py_first :: "json \<Rightarrow> exn + json" where
  "py_first (JArr (x # xs)) = Inr x"
| "py_first (JArr []) = Inl IndexError"
| "py_first (JStr (c # cs)) = Inr (JStr [c])"
| "py_first (JStr []) = Inl IndexError"
| "py_first (JObj kvs) = Inl KeyError"
| "py_first _ = Inl TypeError"

fun py_getitem :: "json \<Rightarrow> string \<Rightarrow> exn + json" where
  "py_getitem (JObj kvs) k = (case map_of kvs k of Some v \<Rightarrow> Inr v | None \<Rightarrow> Inl KeyError)"
| "py_getitem _ k = Inl TypeError"

subsection \<open>Strings\<close>

definition ascii :: "string \<Rightarrow> bool" where
  "ascii s = list_all (\<lambda>c. (of_char c :: nat) < 128) s"

definition digit_char :: "nat \<Rightarrow> char" where
  "digit_char d = ''0123456789'' ! d"

fun show_nat :: "nat \<Rightarrow> string" where
  "show_nat n = (if n < 10 then [digit_char n] else show_nat (n div 10) @ [digit_char (n mod 10)])"

definition show_int :: "int \<Rightarrow> string" where
  "show_int i = (if i < 0 then CHR ''-'' # show_nat (nat (- i)) else show_nat (nat i))"

text \<open>What an f-string field \<^verbatim>\<open>{x}\<close> renders.\<close>

fun py_str :: "json \<Rightarrow> exn + string" where
  "py_str (JStr s) = Inr s"
| "py_str (JInt n) = Inr (show_int n)"
| "py_str JNull = Inr ''None''"
| "py_str (JBool b) = Inr (if b then ''True'' else ''False'')"
| "py_str _ = Inl NotModelled"

text \<open>\<^verbatim>\<open>s.replace(a, b)\<close> for a one-character \<open>a\<close>; only a str has \<^verbatim>\<open>replace\<close>.\<close>

definition str_replace :: "char \<Rightarrow> string \<Rightarrow> string \<Rightarrow> string" where
  "str_replace a b s = concat (map (\<lambda>c. if c = a then b else [c]) s)"

fun py_replace :: "json \<Rightarrow> char \<Rightarrow> string \<Rightarrow> exn + string" where
  "py_replace (JStr s) a b = Inr (str_replace a b s)"
| "py_replace _ a b = Inl AttributeError"

definition is_lower :: "char \<Rightarrow> bool" where
  "is_lower c = (97 \<le> (of_char c :: nat) \<and> (of_char c :: nat) \<le> 122)"

definition is_upper :: "char \<Rightarrow> bool" where
  "is_upper c = (65 \<le> (of_char c :: nat) \<and> (of_char c :: nat) \<le> 90)"

definition to_upper :: "char \<Rightarrow> char" where
  "to_upper c = (if is_lower c then char_of ((of_char c :: nat) - 32) else c)"

definition to_lower :: "char \<Rightarrow> char" where
  "to_lower c = (if is_upper c then char_of ((of_char c :: nat) + 32) else c)"

text \<open>\<^verbatim>\<open>str.title()\<close>: a letter after a letter is lowered, any other letter is raised.\<close>

fun title_from :: "bool \<Rightarrow> string \<Rightarrow> string" where
  "title_from prev [] = []"
| "title_from prev (c # cs) =
     (if prev then to_lower c else to_upper c) # title_from (is_lower c \<or> is_upper c) cs"

definition str_title :: "string \<Rightarrow> exn + string" where
  "str_title s = (if ascii s then Inr (title_from False s) else Inl NotModelled)"

text \<open>\<^verbatim>\<open>m.replace("_", " ").title()\<close>, the normalisation of a categorical value.\<close>

definition normalise_category :: "json \<Rightarrow> exn + json" where
  "normalise_category m =
     bindE (py_replace m (CHR ''_'') '' '') (\<lambda>s.
     bindE (str_title s) (\<lambda>t. Inr (JStr t)))"

text \<open>\<^verbatim>\<open>x[:2000]\<close>.\<close>

fun py_slice_2000 :: "json \<Rightarrow> exn + json" where
  "py_slice_2000 (JStr s) =
     (if length s \<le> 2000 then Inr (JStr s)
      else if ascii s then Inr (JStr (take 2000 s)) else Inl NotModelled)"
| "py_slice_2000 (JArr xs) = Inr (JArr (take 2000 xs))"
| "py_slice_2000 (JObj kvs) = Inl NotModelled"
| "py_slice_2000 _ = Inl TypeError"

text \<open>\<^verbatim>\<open>len(x)\<close> and iteration (\<^verbatim>\<open>for y in x\<close>, \<^verbatim>\<open>enumerate(x)\<close>).\<close>

fun py_iter :: "json \<Rightarrow> exn + json list" where
  "py_iter (JArr xs) = Inr xs"
| "py_iter (JStr s) = (if ascii s then Inr (map (\<lambda>c. JStr [c]) s) else Inl NotModelled)"
| "py_iter (JObj kvs) = Inr (map (\<lambda>kv. JStr (fst kv)) kvs)"
| "py_iter _ = Inl TypeError"

definition py_len :: "json \<Rightarrow> exn + int" where
  "py_len x = bindE (py_iter x) (\<lambda>ys. Inr (int (length ys)))"

subsection \<open>Numbers\<close>

text \<open>Round to nearest, ties to even.\<close>

definition round_half_even :: "rat \<Rightarrow> int" where
  "round_half_even x =
     (let f = \<lfloor>x\<rfloor>; d = x - of_int f
      in if d < 1 / 2 then f else if 1 / 2 < d then f + 1 else if even f then f else f + 1)"

definition pow2 :: "int \<Rightarrow> rat" where
  "pow2 k = (if 0 \<le> k then 2 ^ nat k else 1 / 2 ^ nat (- k))"

text \<open>The floor of the binary logarithm of a positive rational, from the bit lengths of numerator and denominator.\<close>

definition floor_log2 :: "rat \<Rightarrow> int" where
  "floor_log2 a =
     (let k = bitlen (fst (quotient_of a)) - bitlen (snd (quotient_of a))
      in if pow2 k \<le> a then k else k - 1)"

text \<open>
  The binary64 value nearest to a rational: 53 significant bits, exponents down to the
  subnormal \<open>2 ^ -1074\<close>, overflow to an infinity from \<open>2 ^ 1024\<close>.
\<close>

definition round_double :: "rat \<Rightarrow> pyfloat" where
  "round_double q =
     (if q = 0 then Fin 0
      else let a = \<bar>q\<bar>;
               p = max (floor_log2 a - 52) (- 1074);
               m = round_half_even (a / pow2 p);
               v = of_int m * pow2 p
           in if pow2 1024 \<le> v then (if 0 < q then PosInf else NegInf)
              else if m = 0 then (if 0 < q then Fin 0 else NegZero)
              else Fin (if 0 < q then v else - v))"

fun is_zero :: "pyfloat \<Rightarrow> bool" where
  "is_zero (Fin q) = (q = 0)"
| "is_zero NegZero = True"
| "is_zero _ = False"

fun is_negative :: "pyfloat \<Rightarrow> bool" where
  "is_negative (Fin q) = (q < 0)"
| "is_negative NegZero = True"
| "is_negative NegInf = True"
| "is_negative _ = False"

fun is_inf :: "pyfloat \<Rightarrow> bool" where
  "is_inf PosInf = True"
| "is_inf NegInf = True"
| "is_inf _ = False"

fun magnitude :: "pyfloat \<Rightarrow> rat" where
  "magnitude (Fin q) = q"
| "magnitude _ = 0"

text \<open>\<^verbatim>\<open>x * y\<close> on floats.\<close>

definition py_fmul :: "pyfloat \<Rightarrow> pyfloat \<Rightarrow> pyfloat" where
  "py_fmul x y =
     (let neg = (is_negative x \<noteq> is_negative y)
      in if x = NaN \<or> y = NaN then NaN
         else if is_inf x \<or> is_inf y then
           (if is_zero x \<or> is_zero y then NaN else if neg then NegInf else PosInf)
         else if is_zero x \<or> is_zero y then (if neg then NegZero else Fin 0)
         else round_double (magnitude x * magnitude y))"

text \<open>\<^verbatim>\<open>round(x, 2)\<close> on a float: the exact value to two decimals, ties to even, and back
  to the nearest binary64 value.\<close>

fun py_round2 :: "pyfloat \<Rightarrow> pyfloat" where
  "py_round2 (Fin q) =
     (let k = round_half_even (q * 100)
      in if k = 0 then (if q < 0 then NegZero else Fin 0) else round_double (of_int k / 100))"
| "py_round2 x = x"

text \<open>The whitespace \<^verbatim>\<open>int(str)\<close> strips, within ASCII: tab, line feed, vertical tab,
  form feed, carriage return and the space. (The separators 28 to 31, which
  \<^verbatim>\<open>str.strip\<close> takes for whitespace, are not stripped: \<^verbatim>\<open>int\<close> raises on them.)\<close>

definition py_space :: "char \<Rightarrow> bool" where
  "py_space c = (let n = (of_char c :: nat) in (9 \<le> n \<and> n \<le> 13) \<or> n = 32)"

definition is_digit :: "char \<Rightarrow> bool" where
  "is_digit c = (48 \<le> (of_char c :: nat) \<and> (of_char c :: nat) \<le> 57)"

definition digit_val :: "char \<Rightarrow> nat" where
  "digit_val c = (of_char c :: nat) - 48"

definition read_nat :: "string \<Rightarrow> nat" where
  "read_nat s = foldl (\<lambda>a c. 10 * a + digit_val c) 0 s"

text \<open>Digits, with single underscores between digits only.\<close>

fun digits_ok :: "bool \<Rightarrow> string \<Rightarrow> bool" where
  "digits_ok prev_digit [] = prev_digit"
| "digits_ok prev_digit (c # cs) =
     (if is_digit c then digits_ok True cs
      else if c = CHR ''_'' then prev_digit \<and> digits_ok False cs
      else False)"

text \<open>
  \<^verbatim>\<open>int(s)\<close> for a str: surrounding whitespace, one optional sign, decimal digits.
  CPython from 3.11 refuses more than 4300 digits; longer inputs are left unmodelled.
\<close>

definition py_int_str :: "string \<Rightarrow> exn + int" where
  "py_int_str s =
     (if \<not> ascii s then Inl NotModelled
      else let t = rev (dropWhile py_space (rev (dropWhile py_space s)));
               neg = (t \<noteq> [] \<and> hd t = CHR ''-'');
               u = (if t \<noteq> [] \<and> (hd t = CHR ''-'' \<or> hd t = CHR ''+'') then tl t else t);
               ds = filter is_digit u
           in if \<not> digits_ok False u then Inl (ValueError ''int()'')
              else if 4300 < length ds then Inl NotModelled
              else Inr (if neg then - int (read_nat ds) else int (read_nat ds)))"

definition truncate :: "rat \<Rightarrow> int" where
  "truncate q = (if 0 \<le> q then \<lfloor>q\<rfloor> else \<lceil>q\<rceil>)"

text \<open>\<^verbatim>\<open>int(x)\<close> and \<^verbatim>\<open>float(x)\<close>.\<close>

fun py_int :: "json \<Rightarrow> exn + int" where
  "py_int (JInt n) = Inr n"
| "py_int (JBool b) = Inr (if b then 1 else 0)"
| "py_int (JFloat (Fin q)) = Inr (truncate q)"
| "py_int (JFloat NegZero) = Inr 0"
| "py_int (JFloat NaN) = Inl (ValueError ''int()'')"
| "py_int (JFloat _) = Inl OverflowError"
| "py_int (JStr s) = py_int_str s"
| "py_int _ = Inl TypeError"

fun py_float :: "json \<Rightarrow> exn + pyfloat" where
  "py_float (JInt n) = (let f = round_double (of_int n) in if is_inf f then Inl OverflowError else Inr f)"
| "py_float (JBool b) = Inr (Fin (if b then 1 else 0))"
| "py_float (JFloat f) = Inr f"
| "py_float (JStr s) = Inl NotModelled"
| "py_float _ = Inl TypeError"

text \<open>A key of a Python dict: a str or None here; a number as a key is left unmodelled
  (\<^verbatim>\<open>1\<close>, \<^verbatim>\<open>1.0\<close> and \<^verbatim>\<open>True\<close> are one key), a list or a dict is unhashable.\<close>

fun hashable :: "json \<Rightarrow> exn + json" where
  "hashable (JStr s) = Inr (JStr s)"
| "hashable JNull = Inr JNull"
| "hashable (JArr xs) = Inl TypeError"
| "hashable (JObj kvs) = Inl TypeError"
| "hashable _ = Inl NotModelled"

text \<open>An identifier mapping (\<^verbatim>\<open>Dict[str, str]\<close>): \<^verbatim>\<open>m.get(k)\<close> and \<^verbatim>\<open>m[k] = v\<close>.\<close>

type_synonym id_mapping = "(json \<times> json) list"

definition mapping_get :: "id_mapping \<Rightarrow> json \<Rightarrow> exn + json" where
  "mapping_get m k =
     bindE (hashable k) (\<lambda>k'. Inr (case map_of m k' of Some v \<Rightarrow> v | None \<Rightarrow> JNull))"

definition mapping_set :: "id_mapping \<Rightarrow> json \<Rightarrow> json \<Rightarrow> exn + id_mapping" where
  "mapping_set m k v = bindE (hashable k) (\<lambda>k'. Inr (AList.update k' v m))"

primrec mapE :: "('a \<Rightarrow> exn + 'b) \<Rightarrow> 'a list \<Rightarrow> exn + 'b list" where
  "mapE f [] = Inr []"
| "mapE f (x # xs) =
     (case f x of
        Inl e \<Rightarrow> Inl e
      | Inr y \<Rightarrow> (case mapE f xs of Inl e \<Rightarrow> Inl e | Inr ys \<Rightarrow> Inr (y # ys)))"

section \<open>The world a run acts on\<close>

text \<open>
  A run talks to the destination service through an HTTP session and reads the clock.
  Both belong to the environment \<open>'e\<close>: \<open>send\<close> is one physical request (it answers,
  times out, or fails with another exception, and leaves a new environment), \<open>utcnow\<close>
  is \<^verbatim>\<open>datetime.utcnow().isoformat()\<close> and \<open>elapsed\<close> is
  \<^verbatim>\<open>(end - start).total_seconds()\<close>. The world also records, in order, every
  \<^verbatim>\<open>asyncio.sleep\<close> (with its argument) and every request sent.
\<close>

record request =
  http_method :: string
  url :: string
  headers :: "(string \<times> string) list"
  json_data :: json

text \<open>
  A response: its status, its \<^verbatim>\<open>Retry-After\<close> header, and what
  \<^verbatim>\<open>await response.json()\<close> and \<^verbatim>\<open>await response.text()\<close> give. Both read the body from
  the connection, within the time allowed for the whole request: either can raise
  \<^verbatim>\<open>asyncio.TimeoutError\<close> (here \<open>TimeoutError\<close>) or another exception (a broken
  connection, a body that does not decode).

  A request gets a response or raises: \<open>Failed TimeoutError\<close> is a request that timed
  out before the response arrived.
\<close>

record response =
  status :: int
  retry_after :: "string option"
  body_json :: "exn + json"
  body_text :: "exn + string"

datatype outcome = Responded response | Failed exn

datatype event = Sleep rat | Send request

record 'e io =
  send :: "'e \<Rightarrow> request \<Rightarrow> outcome \<times> 'e"
  utcnow :: "'e \<Rightarrow> string"
  elapsed :: "'e \<Rightarrow> 'e \<Rightarrow> pyfloat"

record 'e world =
  env :: 'e
  trace :: "event list"

type_synonym ('e, 'a) action = "'e world \<Rightarrow> (exn + 'a) \<times> 'e world"

definition bindA :: "('e, 'a) action \<Rightarrow> ('a \<Rightarrow> ('e, 'b) action) \<Rightarrow> ('e, 'b) action" where
  "bindA m f w = (case m w of (Inl e, w') \<Rightarrow> (Inl e, w') | (Inr x, w') \<Rightarrow> f x w')"

definition liftE :: "exn + 'a \<Rightarrow> ('e, 'a) action" where
  "liftE r w = (r, w)"

definition log_event :: "event \<Rightarrow> 'e world \<Rightarrow> 'e world" where
  "log_event ev w = w\<lparr>trace := trace w @ [ev]\<rparr>"

text \<open>
  What a stretch of the trace sent under a key of the payload, in order. A page write, the
  creation of a page or the patch of one, is a request whose payload has a
  \<^verbatim>\<open>properties\<close> entry, the property set; a query is one whose payload has a
  \<^verbatim>\<open>filter\<close> entry.
\<close>

fun sent_under :: "string \<Rightarrow> event list \<Rightarrow> json list" where
  "sent_under k [] = []"
| "sent_under k (Sleep d # evs) = sent_under k evs"
| "sent_under k (Send req # evs) =
     (case json_data req of
        JObj kvs \<Rightarrow>
          (case map_of kvs k of
             Some v \<Rightarrow> v # sent_under k evs
           | None \<Rightarrow> sent_under k evs)
      | _ \<Rightarrow> sent_under k evs)"

abbreviation written :: "event list \<Rightarrow> json list" where
  "written \<equiv> sent_under ''properties''"

abbreviation queried :: "event list \<Rightarrow> json list" where
  "queried \<equiv> sent_under ''filter''"

section \<open>Remote Request Gateway\<close>

definition NOTION_REQUEST_DELAY :: rat where
  "NOTION_REQUEST_DELAY = 1 / 2"

definition NOTION_MAX_RETRIES :: nat where
  "NOTION_MAX_RETRIES = 5"

definition NOTION_RETRY_BASE_DELAY :: int where
  "NOTION_RETRY_BASE_DELAY = 2"

definition NOTION_MAX_RETRY_DELAY :: int where
  "NOTION_MAX_RETRY_DELAY = 30"

definition get_notion_headers :: "string \<Rightarrow> (string \<times> string) list" where
  "get_notion_headers notion_api_key =
     [(''Authorization'', ''Bearer '' @ notion_api_key),
      (''Content-Type'', ''application/json''),
      (''Notion-Version'', ''2022-06-28'')]"

text \<open>\<^verbatim>\<open>int(response.headers.get("Retry-After", NOTION_RETRY_BASE_DELAY * (2 ** attempt)))\<close>\<close>

definition header_delay :: "response \<Rightarrow> nat \<Rightarrow> exn + int" where
  "header_delay r attempt =
     (case retry_after r of
        None \<Rightarrow> Inr (NOTION_RETRY_BASE_DELAY * 2 ^ attempt)
      | Some h \<Rightarrow> py_int_str h)"

text \<open>The three methods the gateway has a branch for, and the request such a branch sends:
  a GET carries no body.\<close>

definition known_method :: "request \<Rightarrow> bool" where
  "known_method req =
     (http_method req = ''GET'' \<or> http_method req = ''POST'' \<or> http_method req = ''PATCH'')"

definition sent_request :: "request \<Rightarrow> request" where
  "sent_request req = (if http_method req = ''GET'' then req\<lparr>json_data := JNull\<rparr> else req)"

text \<open>
  One pass through the loop body ends in a \<^verbatim>\<open>return\<close> of a triple
  \<^verbatim>\<open>(status_code, response_json, error_text)\<close>, or in a sleep of so many seconds and
  \<^verbatim>\<open>continue\<close>, or it raises.
\<close>

datatype step = Return "int \<times> json \<times> json" | Continue int

text \<open>
  The body of the \<^verbatim>\<open>try\<close>, from what the request did. The three branches on the
  method are the same code: a 200 returns what \<^verbatim>\<open>await response.json()\<close> gives, a 429
  computes its delay, any other status returns what \<^verbatim>\<open>await response.text()\<close> gives.
  Whatever the request or a read of the body raises is raised inside the \<^verbatim>\<open>try\<close>.
\<close>

definition try_request :: "outcome \<Rightarrow> nat \<Rightarrow> exn + step" where
  "try_request out attempt =
     (case out of
        Failed e \<Rightarrow> Inl e
      | Responded r \<Rightarrow>
          if status r = 200 then
            bindE (body_json r) (\<lambda>j. Inr (Return (status r, j, JNull)))
          else if status r = 429 then
            bindE (header_delay r attempt) (\<lambda>d. Inr (Continue (min d NOTION_MAX_RETRY_DELAY)))
          else
            bindE (body_text r) (\<lambda>t. Inr (Return (status r, JNull, JStr t))))"

text \<open>
  The \<^verbatim>\<open>try\<close> with its handler \<^verbatim>\<open>except asyncio.TimeoutError\<close>, which takes this
  exception wherever the \<^verbatim>\<open>try\<close> raised it, and no other.
\<close>

definition attempt_step :: "outcome \<Rightarrow> nat \<Rightarrow> exn + step" where
  "attempt_step out attempt =
     (case try_request out attempt of
        Inr s \<Rightarrow> Inr s
      | Inl e \<Rightarrow>
          if e = TimeoutError then
            (if attempt < NOTION_MAX_RETRIES - 1
             then Inr (Continue (NOTION_RETRY_BASE_DELAY * 2 ^ attempt))
             else Inr (Return (0, JNull, JStr ''Request timeout after retries'')))
          else Inl e)"

text \<open>
  The loop \<^verbatim>\<open>for attempt in range(NOTION_MAX_RETRIES)\<close>, from attempt \<open>attempt\<close> with
  \<open>n\<close> iterations left. A method other than the three sends nothing and falls through
  every iteration.
\<close>

fun retry_loop ::
  "'e io \<Rightarrow> request \<Rightarrow> nat \<Rightarrow> nat \<Rightarrow> ('e, int \<times> json \<times> json) action" where
  "retry_loop io req 0 attempt w =
     (Inr (429, JNull, JStr ''Rate limited after max retries''), w)"
| "retry_loop io req (Suc n) attempt w =
     (let w1 = log_event (Sleep NOTION_REQUEST_DELAY) w in
      if \<not> known_method req then retry_loop io req n (Suc attempt) w1
      else
        let w2 = log_event (Send (sent_request req))
                   (w1\<lparr>env := snd (send io (env w1) (sent_request req))\<rparr>)
        in case attempt_step (fst (send io (env w1) (sent_request req))) attempt of
             Inl e \<Rightarrow> (Inl e, w2)
           | Inr (Return res) \<Rightarrow> (Inr res, w2)
           | Inr (Continue d) \<Rightarrow>
               retry_loop io req n (Suc attempt) (log_event (Sleep (of_int d)) w2))"

definition notion_request_with_retry ::
  "'e io \<Rightarrow> string \<Rightarrow> string \<Rightarrow> (string \<times> string) list \<Rightarrow> json \<Rightarrow>
   ('e, int \<times> json \<times> json) action" where
  "notion_request_with_retry io meth u hdrs data =
     retry_loop io \<lparr>http_method = meth, url = u, headers = hdrs, json_data = data\<rparr>
       NOTION_MAX_RETRIES 0"

text \<open>
  To speak about a request that is sent again and again: the environment after \<open>k\<close>
  sends of \<open>req\<close>, the outcome of the next send, and, for an outcome on attempt
  \<open>attempt\<close>, whether it is a 429 whose delay can be read and how long the gateway then
  sleeps.
\<close>

fun env_after :: "'e io \<Rightarrow> request \<Rightarrow> nat \<Rightarrow> 'e \<Rightarrow> 'e" where
  "env_after io req 0 e = e"
| "env_after io req (Suc k) e = env_after io req k (snd (send io e req))"

definition answer :: "'e io \<Rightarrow> request \<Rightarrow> 'e \<Rightarrow> nat \<Rightarrow> outcome" where
  "answer io req e k = fst (send io (env_after io req k e) req)"

definition rate_limited :: "outcome \<Rightarrow> nat \<Rightarrow> bool" where
  "rate_limited out attempt =
     (case out of
        Responded r \<Rightarrow>
          status r = 429 \<and> (case header_delay r attempt of Inr d \<Rightarrow> True | Inl e \<Rightarrow> False)
      | _ \<Rightarrow> False)"

definition retry_wait :: "outcome \<Rightarrow> nat \<Rightarrow> int" where
  "retry_wait out attempt =
     (case out of
        Responded r \<Rightarrow>
          (case header_delay r attempt of
             Inr d \<Rightarrow> min d NOTION_MAX_RETRY_DELAY
           | Inl e \<Rightarrow> 0)
      | _ \<Rightarrow> 0)"

text \<open>
  An attempt is retried when it ends in \<^verbatim>\<open>continue\<close>; it timed out when the
  \<^verbatim>\<open>try\<close> raised \<open>TimeoutError\<close>, in the request or in a read of the body.
\<close>

definition retried :: "outcome \<Rightarrow> nat \<Rightarrow> bool" where
  "retried out attempt =
     (case attempt_step out attempt of Inr (Continue d) \<Rightarrow> True | _ \<Rightarrow> False)"

definition timed_out :: "outcome \<Rightarrow> nat \<Rightarrow> bool" where
  "timed_out out attempt = (try_request out attempt = Inl TimeoutError)"

text \<open>
  The four shapes of a returned triple, with the run that leads to each. \<open>ans k\<close> is
  what the request does on attempt \<open>k\<close>. A success carries the JSON of a 200 response
  and no error text; a passed-through failure carries the status and text of a response
  that was neither a 200 nor a 429; either ends the run on the attempt it arrives, every
  attempt before it having been retried. The two synthesized failures stand after the
  last attempt, every attempt before it having been retried: the one when the last attempt
  timed out, the other when it was answered 429.
\<close>

datatype shape = Success | PassedThrough | TimeoutExhausted | RateLimitExhausted

definition ended_by :: "(nat \<Rightarrow> outcome) \<Rightarrow> (response \<Rightarrow> bool) \<Rightarrow> bool" where
  "ended_by ans final =
     list_ex (\<lambda>k. list_all (\<lambda>i. retried (ans i) i) [0..<k] \<and>
                   (case ans k of Responded r \<Rightarrow> final r | Failed e \<Rightarrow> False))
       [0..<NOTION_MAX_RETRIES]"

definition exhausted :: "(nat \<Rightarrow> outcome) \<Rightarrow> bool" where
  "exhausted ans = list_all (\<lambda>i. retried (ans i) i) [0..<NOTION_MAX_RETRIES - 1]"

definition has_shape :: "(nat \<Rightarrow> outcome) \<Rightarrow> int \<times> json \<times> json \<Rightarrow> shape \<Rightarrow> bool" where
  "has_shape ans res s =
     (case res of (st, body, err) \<Rightarrow>
        (case s of
           Success \<Rightarrow>
             st = 200 \<and> err = JNull \<and>
             ended_by ans (\<lambda>r. status r = 200 \<and> body_json r = Inr body)
         | PassedThrough \<Rightarrow>
             st \<noteq> 200 \<and> st \<noteq> 429 \<and> body = JNull \<and>
             ended_by ans (\<lambda>r. status r = st \<and>
                (case body_text r of Inr t \<Rightarrow> err = JStr t | Inl e \<Rightarrow> False))
         | TimeoutExhausted \<Rightarrow>
             st = 0 \<and> body = JNull \<and> err = JStr ''Request timeout after retries'' \<and>
             exhausted ans \<and>
             timed_out (ans (NOTION_MAX_RETRIES - 1)) (NOTION_MAX_RETRIES - 1)
         | RateLimitExhausted \<Rightarrow>
             st = 429 \<and> body = JNull \<and> err = JStr ''Rate limited after max retries'' \<and>
             exhausted ans \<and>
             rate_limited (ans (NOTION_MAX_RETRIES - 1)) (NOTION_MAX_RETRIES - 1)))"

section \<open>Identifier Resolver and page writes\<close>

definition filter_config :: "string \<Rightarrow> string \<Rightarrow> json \<Rightarrow> json" where
  "filter_config hevy_id_property property_type hevy_id =
     (if property_type = ''title''
      then JObj [(''property'', JStr hevy_id_property), (''title'', JObj [(''equals'', hevy_id)])]
      else JObj [(''property'', JStr hevy_id_property),
                 (''rich_text'', JObj [(''equals'', hevy_id)])])"

definition find_page_by_hevy_id ::
  "'e io \<Rightarrow> json \<Rightarrow> string \<Rightarrow> json \<Rightarrow> string \<Rightarrow> string \<Rightarrow> ('e, json) action" where
  "find_page_by_hevy_id io database_id hevy_id_property hevy_id notion_api_key property_type =
     (let search_payload =
            JObj [(''filter'', filter_config hevy_id_property property_type hevy_id)]
      in bindA (liftE (py_str database_id)) (\<lambda>db.
         bindA (notion_request_with_retry io ''POST''
                  (''https://api.notion.com/v1/databases/'' @ db @ ''/query'')
                  (get_notion_headers notion_api_key) search_payload) (\<lambda>(st, data, err).
         liftE (if st = 200 \<and> truthy data
                then bindE (dict_get data ''results'' (JArr [])) (\<lambda>results.
                     if truthy results
                     then bindE (py_first results) (\<lambda>r. py_getitem r ''id'')
                     else Inr JNull)
                else Inr JNull))))"

definition create_or_update_page ::
  "'e io \<Rightarrow> json \<Rightarrow> json \<Rightarrow> json \<Rightarrow> string \<Rightarrow> ('e, json) action" where
  "create_or_update_page io database_id page_id properties notion_api_key =
     bindA
       (if truthy page_id
        then bindA (liftE (py_str page_id)) (\<lambda>pid.
               notion_request_with_retry io ''PATCH''
                 (''https://api.notion.com/v1/pages/'' @ pid)
                 (get_notion_headers notion_api_key)
                 (JObj [(''properties'', properties)]))
        else notion_request_with_retry io ''POST''
               ''https://api.notion.com/v1/pages''
               (get_notion_headers notion_api_key)
               (JObj [(''parent'', JObj [(''database_id'', database_id)]),
                      (''properties'', properties)]))
       (\<lambda>(st, data, err).
          liftE (if st = 200 \<and> truthy data then dict_get data ''id'' JNull else Inr JNull))"

section \<open>Entity Upsert Operations\<close>

text \<open>The shapes of destination properties.\<close>

definition text_content :: "json \<Rightarrow> json" where
  "text_content c = JArr [JObj [(''text'', JObj [(''content'', c)])]]"

definition title_prop :: "json \<Rightarrow> json" where
  "title_prop c = JObj [(''title'', text_content c)]"

definition rich_text_prop :: "json \<Rightarrow> json" where
  "rich_text_prop c = JObj [(''rich_text'', text_content c)]"

definition number_prop :: "json \<Rightarrow> json" where
  "number_prop n = JObj [(''number'', n)]"

definition date_prop :: "json \<Rightarrow> json" where
  "date_prop d = JObj [(''date'', JObj [(''start'', d)])]"

definition select_prop :: "json \<Rightarrow> json" where
  "select_prop n = JObj [(''select'', JObj [(''name'', n)])]"

definition relation_prop :: "string \<Rightarrow> json" where
  "relation_prop i = JObj [(''relation'', JArr [JObj [(''id'', JStr i)]])]"

text \<open>\<^verbatim>\<open>{"relation": [{"id": page_id.replace("-", "")}]}\<close>\<close>

definition relation_to :: "json \<Rightarrow> exn + json" where
  "relation_to page_id = bindE (py_replace page_id (CHR ''-'') []) (\<lambda>i. Inr (relation_prop i))"

text \<open>
  A run of statements \<^verbatim>\<open>if c: properties[k] = v\<close>, in order. A value is computed only
  where its condition holds, and the first one that raises ends the run.
\<close>

type_synonym properties = "(string \<times> json) list"

fun assign_where :: "properties \<Rightarrow> (bool \<times> string \<times> (exn + json)) list \<Rightarrow> exn + properties" where
  "assign_where p [] = Inr p"
| "assign_where p ((c, k, v) # rest) =
     (if c then (case v of Inl e \<Rightarrow> Inl e | Inr x \<Rightarrow> assign_where (AList.update k x p) rest)
      else assign_where p rest)"

definition select_category :: "json \<Rightarrow> exn + json" where
  "select_category m = bindE (normalise_category m) (\<lambda>n. Inr (select_prop n))"

definition truncated_text :: "json \<Rightarrow> exn + json" where
  "truncated_text t = bindE (py_slice_2000 t) (\<lambda>n. Inr (rich_text_prop n))"

subsection \<open>Exercise templates\<close>

text \<open>The property set \<^verbatim>\<open>upsert_exercise_template\<close> builds, with the source id it looks up.\<close>

definition exercise_template_properties ::
  "string \<Rightarrow> json \<Rightarrow> exn + json \<times> properties" where
  "exercise_template_properties now template =
     bindE (dict_get template ''exercise_template'' template) (\<lambda>template_data.
     bindE (dict_get template_data ''id'' (JStr [])) (\<lambda>hevy_id.
     bindE (dict_get template_data ''title'' (JStr ''Unknown Exercise'')) (\<lambda>title.
     bindE (dict_get template_data ''type'' (JStr [])) (\<lambda>exercise_type.
     bindE (dict_get template_data ''primary_muscle_group'' (JStr [])) (\<lambda>primary_muscle.
     bindE (dict_get template_data ''secondary_muscle_groups'' (JArr [])) (\<lambda>secondary_muscles.
     bindE (dict_get template_data ''equipment_category'' (JStr [])) (\<lambda>equipment.
     bindE (dict_get template_data ''is_custom'' (JBool False)) (\<lambda>is_custom.
     bindE (assign_where
              [(''Name'', title_prop title),
               (''Hevy ID'', rich_text_prop hevy_id),
               (''Last Synced'', date_prop (JStr now))]
              [(truthy exercise_type, ''Exercise Type'', Inr (select_prop exercise_type)),
               (truthy primary_muscle, ''Primary Muscle'', select_category primary_muscle)])
       (\<lambda>p2.
     bindE (case secondary_muscles of
              JArr ms \<Rightarrow>
                if ms \<noteq> [] then
                  bindE (mapE (\<lambda>m. bindE (normalise_category m) (\<lambda>n. Inr (JObj [(''name'', n)])))
                          (filter truthy ms)) (\<lambda>formatted.
                  Inr (if formatted \<noteq> []
                       then AList.update ''Secondary Muscles''
                              (JObj [(''multi_select'', JArr formatted)]) p2
                       else p2))
                else Inr p2
            | _ \<Rightarrow> Inr p2) (\<lambda>p3.
     bindE (assign_where p3
              [(truthy equipment, ''Equipment'', select_category equipment),
               (True, ''Is Custom'', Inr (JObj [(''checkbox'', is_custom)]))]) (\<lambda>p4.
     Inr (hevy_id, p4))))))))))))"

definition upsert_exercise_template ::
  "'e io \<Rightarrow> json \<Rightarrow> string \<Rightarrow> json \<Rightarrow> ('e, json) action" where
  "upsert_exercise_template io template notion_api_key database_id w =
     bindA (liftE (exercise_template_properties (utcnow io (env w)) template))
       (\<lambda>(hevy_id, properties).
     bindA (find_page_by_hevy_id io database_id ''Hevy ID'' hevy_id notion_api_key ''rich_text'')
       (\<lambda>existing_page_id.
     create_or_update_page io database_id existing_page_id (JObj properties) notion_api_key)) w"

subsection \<open>Routines\<close>

definition routine_properties ::
  "string \<Rightarrow> json \<Rightarrow> exn + json \<times> properties" where
  "routine_properties now routine =
     bindE (dict_get routine ''routine'' routine) (\<lambda>routine_data.
     bindE (dict_get routine_data ''id'' (JStr [])) (\<lambda>hevy_id.
     bindE (dict_get routine_data ''title'' (JStr ''Unnamed Routine'')) (\<lambda>title.
     bindE (dict_get routine_data ''folder_id'' JNull) (\<lambda>folder_id.
     bindE (dict_get routine_data ''notes'' (JStr [])) (\<lambda>notes.
     bindE (dict_get routine_data ''exercises'' (JArr [])) (\<lambda>exercises.
     bindE (dict_get routine_data ''created_at'' JNull) (\<lambda>created_at.
     bindE (dict_get routine_data ''updated_at'' JNull) (\<lambda>updated_at.
     bindE (py_len exercises) (\<lambda>exercise_count.
     bindE (assign_where
              [(''Name'', title_prop title),
               (''Hevy ID'', rich_text_prop hevy_id),
               (''Exercise Count'', number_prop (JInt exercise_count)),
               (''Last Synced'', date_prop (JStr now))]
              [(folder_id \<noteq> JNull, ''Folder ID'', Inr (number_prop folder_id)),
               (truthy notes, ''Notes'', truncated_text notes),
               (truthy created_at, ''Created'', Inr (date_prop created_at)),
               (truthy updated_at, ''Updated'', Inr (date_prop updated_at))]) (\<lambda>p.
     Inr (hevy_id, p)))))))))))"

definition upsert_routine ::
  "'e io \<Rightarrow> json \<Rightarrow> string \<Rightarrow> json \<Rightarrow> ('e, json) action" where
  "upsert_routine io routine notion_api_key database_id w =
     bindA (liftE (routine_properties (utcnow io (env w)) routine))
       (\<lambda>(hevy_id, properties).
     bindA (find_page_by_hevy_id io database_id ''Hevy ID'' hevy_id notion_api_key ''rich_text'')
       (\<lambda>existing_page_id.
     create_or_update_page io database_id existing_page_id (JObj properties) notion_api_key)) w"

subsection \<open>Workouts\<close>

text \<open>\<^verbatim>\<open>sum(len(ex.get("sets", [])) for ex in exercises)\<close>\<close>

definition total_sets_of :: "json \<Rightarrow> exn + int" where
  "total_sets_of exercises =
     bindE (py_iter exercises) (\<lambda>exs.
     bindE (mapE (\<lambda>ex. bindE (dict_get ex ''sets'' (JArr [])) py_len) exs) (\<lambda>ns.
     Inr (sum_list ns)))"

definition workout_properties ::
  "string \<Rightarrow> json \<Rightarrow> json \<Rightarrow> exn + json \<times> properties" where
  "workout_properties now workout routine_page_id =
     bindE (dict_get workout ''workout'' workout) (\<lambda>workout_data.
     bindE (dict_get workout_data ''id'' (JStr [])) (\<lambda>hevy_id.
     bindE (dict_get workout_data ''title'' (JStr ''Workout'')) (\<lambda>title.
     bindE (dict_get workout_data ''description'' (JStr [])) (\<lambda>description.
     bindE (dict_get workout_data ''start_time'' JNull) (\<lambda>start_time.
     bindE (dict_get workout_data ''end_time'' JNull) (\<lambda>end_time.
     bindE (dict_get workout_data ''created_at'' JNull) (\<lambda>created_at.
     bindE (dict_get workout_data ''exercises'' (JArr [])) (\<lambda>exercises.
     bindE (py_len exercises) (\<lambda>exercise_count.
     bindE (total_sets_of exercises) (\<lambda>total_sets.
     bindE (assign_where
              [(''Name'', title_prop title),
               (''Hevy ID'', rich_text_prop hevy_id),
               (''Exercise Count'', number_prop (JInt exercise_count)),
               (''Total Sets'', number_prop (JInt total_sets)),
               (''Last Synced'', date_prop (JStr now))]
              [(truthy description, ''Description'', truncated_text description),
               (truthy start_time, ''Start Time'', Inr (date_prop start_time)),
               (truthy end_time, ''End Time'', Inr (date_prop end_time)),
               (truthy created_at, ''Created'', Inr (date_prop created_at)),
               (truthy routine_page_id, ''Routine'', relation_to routine_page_id)]) (\<lambda>p.
     Inr (hevy_id, p))))))))))))"

definition upsert_workout ::
  "'e io \<Rightarrow> json \<Rightarrow> string \<Rightarrow> json \<Rightarrow> json \<Rightarrow> ('e, json) action" where
  "upsert_workout io workout notion_api_key workouts_db_id routine_page_id w =
     bindA (liftE (workout_properties (utcnow io (env w)) workout routine_page_id))
       (\<lambda>(hevy_id, properties).
     bindA (find_page_by_hevy_id io workouts_db_id ''Hevy ID'' hevy_id notion_api_key ''rich_text'')
       (\<lambda>existing_page_id.
     create_or_update_page io workouts_db_id existing_page_id (JObj properties) notion_api_key)) w"

subsection \<open>Exercise sets\<close>

text \<open>\<^verbatim>\<open>f"{workout_id}-{exercise_index}-{set_index}"\<close>, the indices being positions
  counted from 0.\<close>

definition composite_set_id :: "string \<Rightarrow> nat \<Rightarrow> nat \<Rightarrow> string" where
  "composite_set_id workout_id exercise_index set_index =
     workout_id @ ''-'' @ show_nat exercise_index @ ''-'' @ show_nat set_index"

text \<open>The literal \<^verbatim>\<open>2.20462\<close>.\<close>

definition LB_PER_KG :: pyfloat where
  "LB_PER_KG = round_double (220462 / 100000)"

text \<open>\<^verbatim>\<open>round(float(weight_kg) * 2.20462, 2)\<close>\<close>

definition weight_lbs :: "json \<Rightarrow> exn + pyfloat" where
  "weight_lbs weight_kg = bindE (py_float weight_kg) (\<lambda>f. Inr (py_round2 (py_fmul f LB_PER_KG)))"

definition set_properties ::
  "string \<Rightarrow> json \<Rightarrow> json \<Rightarrow> json \<Rightarrow> nat \<Rightarrow> json \<Rightarrow> nat \<Rightarrow> json \<Rightarrow>
   exn + string \<times> properties" where
  "set_properties now workout_id workout_page_id exercise exercise_index set_data set_index
     exercise_template_page_id =
     bindE (py_str workout_id) (\<lambda>wid.
     bindE (dict_get exercise ''title'' (JStr ''Unknown Exercise'')) (\<lambda>exercise_name.
     bindE (dict_get set_data ''set_type'' (JStr ''normal'')) (\<lambda>set_type.
     bindE (dict_get set_data ''weight_kg'' JNull) (\<lambda>weight_kg.
     bindE (dict_get set_data ''reps'' JNull) (\<lambda>reps.
     bindE (dict_get set_data ''distance_meters'' JNull) (\<lambda>distance_meters.
     bindE (dict_get set_data ''duration_seconds'' JNull) (\<lambda>duration_seconds.
     bindE (dict_get set_data ''rpe'' JNull) (\<lambda>rpe.
     bindE (dict_get exercise ''superset_id'' JNull) (\<lambda>superset_id.
     bindE (dict_get exercise ''notes'' (JStr [])) (\<lambda>notes.
     bindE (assign_where
              [(''Exercise Name'', title_prop exercise_name),
               (''Hevy ID'',
                  rich_text_prop (JStr (composite_set_id wid exercise_index set_index))),
               (''Exercise Order'', number_prop (JInt (int exercise_index + 1))),
               (''Set Number'', number_prop (JInt (int set_index + 1))),
               (''Set Type'', select_prop set_type),
               (''Last Synced'', date_prop (JStr now))]
              [(truthy workout_page_id, ''Workout'', relation_to workout_page_id),
               (truthy exercise_template_page_id, ''Exercise'',
                  relation_to exercise_template_page_id),
               (weight_kg \<noteq> JNull, ''Weight (lb)'',
                  bindE (weight_lbs weight_kg) (\<lambda>x. Inr (number_prop (JFloat x)))),
               (reps \<noteq> JNull, ''Reps'',
                  bindE (py_int reps) (\<lambda>x. Inr (number_prop (JInt x)))),
               (distance_meters \<noteq> JNull, ''Distance (m)'',
                  bindE (py_float distance_meters) (\<lambda>x. Inr (number_prop (JFloat x)))),
               (duration_seconds \<noteq> JNull, ''Duration (s)'',
                  bindE (py_int duration_seconds) (\<lambda>x. Inr (number_prop (JInt x)))),
               (rpe \<noteq> JNull, ''RPE'',
                  bindE (py_float rpe) (\<lambda>x. Inr (number_prop (JFloat x)))),
               (superset_id \<noteq> JNull, ''Superset ID'', Inr (number_prop superset_id)),
               (truthy notes, ''Notes'', truncated_text notes)]) (\<lambda>p.
     Inr (composite_set_id wid exercise_index set_index, p))))))))))))"

definition upsert_set ::
  "'e io \<Rightarrow> json \<Rightarrow> json \<Rightarrow> json \<Rightarrow> nat \<Rightarrow> json \<Rightarrow> nat \<Rightarrow> string \<Rightarrow> json \<Rightarrow> json \<Rightarrow>
   ('e, json) action" where
  "upsert_set io workout_id workout_page_id exercise exercise_index set_data set_index
     notion_api_key sets_db_id exercise_template_page_id w =
     bindA (liftE (set_properties (utcnow io (env w)) workout_id workout_page_id exercise
                     exercise_index set_data set_index exercise_template_page_id))
       (\<lambda>(composite, properties).
     bindA (find_page_by_hevy_id io sets_db_id ''Hevy ID'' (JStr composite) notion_api_key
              ''rich_text'')
       (\<lambda>existing_page_id.
     create_or_update_page io sets_db_id existing_page_id (JObj properties) notion_api_key)) w"

section \<open>Batch Fan-out\<close>

text \<open>
  \<^verbatim>\<open>asyncio.gather(*tasks, return_exceptions=True)\<close>: one outcome per task, in task order;
  an exception a task raises is its outcome. The tasks interleave at their await points;
  here they run one after another, in task order. What the callers do with the outcomes
  (\<open>collect_results\<close>, \<open>count_successes\<close>) is defined on any list of outcomes.
\<close>

fun gather :: "('e, 'a) action list \<Rightarrow> 'e world \<Rightarrow> (exn + 'a) list \<times> 'e world" where
  "gather [] w = ([], w)"
| "gather (t # ts) w = (fst (t w) # fst (gather ts (snd (t w))), snd (gather ts (snd (t w))))"

text \<open>
  The loop over \<^verbatim>\<open>enumerate(results)\<close> of \<^verbatim>\<open>sync_exercise_templates\<close> and
  \<^verbatim>\<open>sync_routines\<close>, which differ in the envelope key only: an exception is logged,
  a result that is not None is counted and stored under the entity's source id.
\<close>

fun collect_results ::
  "string \<Rightarrow> (json \<times> (exn + json)) list \<Rightarrow> int \<times> id_mapping \<Rightarrow> exn + int \<times> id_mapping" where
  "collect_results envelope [] acc = Inr acc"
| "collect_results envelope ((entity, Inl e) # rest) acc = collect_results envelope rest acc"
| "collect_results envelope ((entity, Inr result) # rest) (count, id_mapping) =
     (if result \<noteq> JNull then
        (case bindE (dict_get entity envelope entity) (\<lambda>entity_data.
              bindE (dict_get entity_data ''id'' (JStr [])) (\<lambda>hevy_id.
              mapping_set id_mapping hevy_id result)) of
           Inl e \<Rightarrow> Inl e
         | Inr m \<Rightarrow> collect_results envelope rest (count + 1, m))
      else collect_results envelope rest (count, id_mapping))"

definition sync_exercise_templates ::
  "'e io \<Rightarrow> json list \<Rightarrow> string \<Rightarrow> json \<Rightarrow> ('e, int \<times> id_mapping) action" where
  "sync_exercise_templates io templates notion_api_key database_id w =
     (let tasks = map (\<lambda>t. upsert_exercise_template io t notion_api_key database_id) templates;
          results = fst (gather tasks w)
      in (collect_results ''exercise_template'' (zip templates results) (0, []),
          snd (gather tasks w)))"

definition sync_routines ::
  "'e io \<Rightarrow> json list \<Rightarrow> string \<Rightarrow> json \<Rightarrow> ('e, int \<times> id_mapping) action" where
  "sync_routines io routines notion_api_key database_id w =
     (let tasks = map (\<lambda>r. upsert_routine io r notion_api_key database_id) routines;
          results = fst (gather tasks w)
      in (collect_results ''routine'' (zip routines results) (0, []),
          snd (gather tasks w)))"

text \<open>The loop over \<^verbatim>\<open>results\<close> of \<^verbatim>\<open>sync_workout_sets\<close>.\<close>

fun count_successes :: "(exn + json) list \<Rightarrow> int" where
  "count_successes [] = 0"
| "count_successes (Inl e # rest) = count_successes rest"
| "count_successes (Inr result # rest) =
     (if result \<noteq> JNull then count_successes rest + 1 else count_successes rest)"

text \<open>The arguments of the \<^verbatim>\<open>upsert_set\<close> tasks \<^verbatim>\<open>sync_workout_sets\<close> builds:
  exercise, its index, set, its index, the template's page id.\<close>

definition set_tasks ::
  "json \<Rightarrow> id_mapping \<Rightarrow> exn + (json \<times> nat \<times> json \<times> nat \<times> json) list" where
  "set_tasks exercises exercise_template_mapping =
     bindE (py_iter exercises) (\<lambda>exs.
     bindE (mapE (\<lambda>(exercise_index, exercise).
              bindE (dict_get exercise ''exercise_template_id'' (JStr [])) (\<lambda>exercise_template_id.
              bindE (mapping_get exercise_template_mapping exercise_template_id)
                (\<lambda>exercise_template_page_id.
              bindE (dict_get exercise ''sets'' (JArr [])) (\<lambda>sets.
              bindE (py_iter sets) (\<lambda>ss.
              Inr (map (\<lambda>(set_index, set_data).
                          (exercise, exercise_index, set_data, set_index,
                           exercise_template_page_id))
                     (enumerate 0 ss)))))))
            (enumerate 0 exs)) (\<lambda>tss.
     Inr (concat tss)))"

definition sync_workout_sets ::
  "'e io \<Rightarrow> json \<Rightarrow> json \<Rightarrow> json \<Rightarrow> string \<Rightarrow> json \<Rightarrow> id_mapping \<Rightarrow> ('e, int) action" where
  "sync_workout_sets io workout_id workout_page_id exercises notion_api_key sets_db_id
     exercise_template_mapping w =
     (case set_tasks exercises exercise_template_mapping of
        Inl e \<Rightarrow> (Inl e, w)
      | Inr args \<Rightarrow>
          if args = [] then (Inr 0, w)
          else
            let tasks = map (\<lambda>(exercise, exercise_index, set_data, set_index, page).
                               upsert_set io workout_id workout_page_id exercise exercise_index
                                 set_data set_index notion_api_key sets_db_id page) args
            in (Inr (count_successes (fst (gather tasks w))), snd (gather tasks w)))"

section \<open>Sync Orchestrator\<close>

text \<open>One iteration of the loop of \<^verbatim>\<open>sync_workouts_and_sets\<close>: what it adds to
  \<^verbatim>\<open>workout_count\<close> and \<^verbatim>\<open>set_count\<close>.\<close>

definition sync_one_workout ::
  "'e io \<Rightarrow> json \<Rightarrow> string \<Rightarrow> json \<Rightarrow> json \<Rightarrow> id_mapping \<Rightarrow> id_mapping \<Rightarrow>
   ('e, int \<times> int) action" where
  "sync_one_workout io workout notion_api_key workouts_db_id sets_db_id routine_mapping
     exercise_template_mapping =
     bindA (liftE (dict_get workout ''workout'' workout)) (\<lambda>workout_data.
     bindA (liftE (dict_get workout_data ''routine_id'' JNull)) (\<lambda>routine_id.
     bindA (liftE (if truthy routine_id then mapping_get routine_mapping routine_id
                   else Inr JNull)) (\<lambda>routine_page_id.
     bindA (upsert_workout io workout notion_api_key workouts_db_id routine_page_id)
       (\<lambda>workout_page_id.
     if truthy workout_page_id then
       bindA (liftE (dict_get workout_data ''exercises'' (JArr []))) (\<lambda>exercises.
       bindA (liftE (dict_get workout_data ''id'' (JStr []))) (\<lambda>workout_id.
       bindA (sync_workout_sets io workout_id workout_page_id exercises notion_api_key
                sets_db_id exercise_template_mapping) (\<lambda>sets_synced.
       liftE (Inr (1, sets_synced)))))
     else liftE (Inr (0, 0))))))"

fun sync_workouts_loop ::
  "'e io \<Rightarrow> json list \<Rightarrow> string \<Rightarrow> json \<Rightarrow> json \<Rightarrow> id_mapping \<Rightarrow> id_mapping \<Rightarrow>
   int \<times> int \<Rightarrow> ('e, int \<times> int) action" where
  "sync_workouts_loop io [] key wdb sdb rm tm acc w = (Inr acc, w)"
| "sync_workouts_loop io (workout # rest) key wdb sdb rm tm (workout_count, set_count) w =
     (case sync_one_workout io workout key wdb sdb rm tm w of
        (Inl e, w') \<Rightarrow> (Inl e, w')
      | (Inr (dw, ds), w') \<Rightarrow>
          sync_workouts_loop io rest key wdb sdb rm tm (workout_count + dw, set_count + ds) w')"

definition sync_workouts_and_sets ::
  "'e io \<Rightarrow> json list \<Rightarrow> string \<Rightarrow> json \<Rightarrow> json \<Rightarrow> id_mapping \<Rightarrow> id_mapping \<Rightarrow>
   ('e, int \<times> int) action" where
  "sync_workouts_and_sets io workouts notion_api_key workouts_db_id sets_db_id routine_mapping
     exercise_template_mapping =
     sync_workouts_loop io workouts notion_api_key workouts_db_id sets_db_id routine_mapping
       exercise_template_mapping (0, 0)"

text \<open>
  \<^verbatim>\<open>hevy_api.py\<close> is not among the sources: what its functions return is a parameter
  of a run. \<^verbatim>\<open>get_workout_and_routine_async\<close> yields the pair
  \<^verbatim>\<open>(workout_data, routine_data)\<close>, the others a list.
\<close>

record hevy_api =
  get_workout_and_routine_async :: "string \<Rightarrow> exn + json \<times> json"
  get_exercise_templates_async :: "json list \<Rightarrow> exn + json list"
  extract_unique_exercises :: "json \<Rightarrow> exn + json list"
  get_all_exercise_templates :: "exn + json list"
  get_all_routines :: "exn + json list"
  get_all_workouts :: "exn + json list"

subsection \<open>Single-workout sync\<close>

definition process_workout_webhook ::
  "'e io \<Rightarrow> hevy_api \<Rightarrow> string \<Rightarrow> string \<Rightarrow> string \<Rightarrow> json \<Rightarrow> json \<Rightarrow> json \<Rightarrow> json \<Rightarrow>
   ('e, json) action" where
  "process_workout_webhook io hevy workout_id webhook_id notion_api_key workouts_db_id
     routines_db_id templates_db_id sets_db_id =
     bindA (liftE (get_workout_and_routine_async hevy workout_id)) (\<lambda>(workout_data, routine_data).
     if \<not> truthy workout_data
     then liftE (Inl (ValueError (''Failed to fetch workout data for ID: '' @ workout_id)))
     else
     bindA (if truthy routine_data \<and> truthy routines_db_id
            then bindA (liftE (dict_get routine_data ''title'' (JStr ''Unknown''))) (\<lambda>_.
                   upsert_routine io routine_data notion_api_key routines_db_id)
            else liftE (Inr JNull)) (\<lambda>routine_page_id.
     bindA (if truthy templates_db_id
            then bindA (liftE (extract_unique_exercises hevy workout_data)) (\<lambda>unique_exercises.
                 if unique_exercises \<noteq> [] then
                   bindA (liftE (mapE (\<lambda>ex. py_getitem ex ''exercise_template_id'')
                                   unique_exercises)) (\<lambda>exercise_template_ids.
                   bindA (liftE (get_exercise_templates_async hevy exercise_template_ids))
                     (\<lambda>exercise_templates.
                   if exercise_templates \<noteq> []
                   then sync_exercise_templates io exercise_templates notion_api_key
                          templates_db_id
                   else liftE (Inr (0, []))))
                 else liftE (Inr (0, [])))
            else liftE (Inr (0, []))) (\<lambda>(template_count, template_mapping).
     bindA (liftE (dict_get workout_data ''title'' (JStr ''Workout''))) (\<lambda>_.
     bindA (upsert_workout io workout_data notion_api_key workouts_db_id routine_page_id)
       (\<lambda>workout_page_id.
     if \<not> truthy workout_page_id
     then liftE (Inl (ValueError ''Failed to create/update workout in Notion''))
     else
     bindA (if truthy sets_db_id \<and> truthy workout_page_id
            then bindA (liftE (dict_get workout_data ''exercises'' (JArr []))) (\<lambda>exercises.
                 bindA (liftE (dict_get workout_data ''id'' (JStr []))) (\<lambda>wid.
                 sync_workout_sets io wid workout_page_id exercises notion_api_key sets_db_id
                   template_mapping))
            else liftE (Inr 0)) (\<lambda>set_count.
     bindA (liftE (if truthy routine_data then dict_get routine_data ''title'' JNull
                   else Inr JNull)) (\<lambda>routine_name.
     (\<lambda>w. (Inr (JObj
       [(''status'', JStr ''success''),
        (''webhook_id'', JStr webhook_id),
        (''workout_id'', JStr workout_id),
        (''notion_page_id'', workout_page_id),
        (''routine_name'', routine_name),
        (''routine_page_id'', routine_page_id),
        (''exercise_templates_synced'', JInt template_count),
        (''sets_synced'', JInt set_count),
        (''message'', JStr ''Workout successfully synced to Notion''),
        (''timestamp'', JStr (utcnow io (env w)))]), w)))))))))"

subsection \<open>Full sync\<close>

definition perform_full_sync ::
  "'e io \<Rightarrow> hevy_api \<Rightarrow> string \<Rightarrow> json \<Rightarrow> json \<Rightarrow> json \<Rightarrow> json \<Rightarrow> ('e, json) action" where
  "perform_full_sync io hevy notion_api_key workouts_db_id routines_db_id templates_db_id
     sets_db_id w0 =
     bindA (if truthy templates_db_id
            then bindA (liftE (get_all_exercise_templates hevy)) (\<lambda>templates.
                 if templates \<noteq> []
                 then sync_exercise_templates io templates notion_api_key templates_db_id
                 else liftE (Inr (0, [])))
            else liftE (Inr (0, []))) (\<lambda>(template_count, template_mapping).
     bindA (if truthy routines_db_id
            then bindA (liftE (get_all_routines hevy)) (\<lambda>routines.
                 if routines \<noteq> []
                 then sync_routines io routines notion_api_key routines_db_id
                 else liftE (Inr (0, [])))
            else liftE (Inr (0, []))) (\<lambda>(routine_count, routine_mapping).
     bindA (liftE (get_all_workouts hevy)) (\<lambda>workouts.
     bindA (if workouts \<noteq> []
            then sync_workouts_and_sets io workouts notion_api_key workouts_db_id sets_db_id
                   routine_mapping template_mapping
            else liftE (Inr (0, 0))) (\<lambda>(workout_count, set_count).
     (\<lambda>w. (Inr (JObj
       [(''status'', JStr ''success''),
        (''exercise_templates'', JInt template_count),
        (''routines'', JInt routine_count),
        (''workouts'', JInt workout_count),
        (''sets'', JInt set_count),
        (''duration_seconds'', JFloat (py_round2 (elapsed io (env w0) (env w)))),
        (''timestamp'', JStr (utcnow io (env w)))]), w)))))) w0"

text \<open>
  \<^verbatim>\<open>full_sync_handler\<close>: \<open>environ\<close> is \<^verbatim>\<open>os.environ.get\<close>, \<open>str_of\<close> is \<^verbatim>\<open>str(e)\<close>.
  The response is its status code with the JSON value that \<^verbatim>\<open>json.dumps\<close> writes out.
\<close>

definition environ_get :: "(string \<Rightarrow> string option) \<Rightarrow> string \<Rightarrow> json" where
  "environ_get environ k = (case environ k of None \<Rightarrow> JNull | Some v \<Rightarrow> JStr v)"

definition full_sync_handler ::
  "'e io \<Rightarrow> hevy_api \<Rightarrow> (exn \<Rightarrow> string) \<Rightarrow> (string \<Rightarrow> string option) \<Rightarrow> 'e world \<Rightarrow>
   (int \<times> json) \<times> 'e world" where
  "full_sync_handler io hevy str_of environ w =
     (let hevy_api_key = environ_get environ ''HEVY_API_KEY'';
          notion_api_key = environ_get environ ''NOTION_API_KEY'';
          notion_workouts_db_id = environ_get environ ''NOTION_WORKOUTS_DATABASE_ID'';
          notion_routines_db_id = environ_get environ ''NOTION_ROUTINES_DATABASE_ID'';
          notion_templates_db_id = environ_get environ ''NOTION_EXERCISE_TEMPLATES_DATABASE_ID'';
          notion_sets_db_id = environ_get environ ''NOTION_SETS_DATABASE_ID''
      in if \<not> truthy hevy_api_key
         then ((500, JObj [(''error'', JStr ''HEVY_API_KEY not configured'')]), w)
         else if \<not> truthy notion_api_key
         then ((500, JObj [(''error'', JStr ''NOTION_API_KEY not configured'')]), w)
         else if \<not> truthy notion_workouts_db_id
         then ((500, JObj [(''error'', JStr ''NOTION_WORKOUTS_DATABASE_ID not configured'')]), w)
         else
           (case perform_full_sync io hevy (the (environ ''NOTION_API_KEY''))
                   notion_workouts_db_id notion_routines_db_id notion_templates_db_id
                   notion_sets_db_id w of
              (Inl e, w') \<Rightarrow>
                ((500, JObj [(''status'', JStr ''error''),
                             (''error'', JStr (str_of e)),
                             (''timestamp'', JStr (utcnow io (env w')))]), w')
            | (Inr result, w') \<Rightarrow> ((200, result), w')))"

section \<open>A reference destination\<close>

text \<open>
  The destination service as the engine uses it: query a database by a property filter,
  create a page under a database, patch the properties of a page. A page gets its
  identifier when it is created and keeps it. The service answers every request at once.
\<close>

record page =
  ident :: string
  parent :: json
  stored :: "(string \<times> json) list"

record destination =
  pages :: "page list"
  next_page :: nat

definition fresh_id :: "nat \<Rightarrow> string" where
  "fresh_id n = ''page-'' @ show_nat n"

fun strip_prefix :: "string \<Rightarrow> string \<Rightarrow> string option" where
  "strip_prefix [] s = Some s"
| "strip_prefix (p # ps) [] = None"
| "strip_prefix (p # ps) (c # cs) = (if p = c then strip_prefix ps cs else None)"

definition strip_suffix :: "string \<Rightarrow> string \<Rightarrow> string option" where
  "strip_suffix suf s = map_option rev (strip_prefix (rev suf) (rev s))"

definition ok_response :: "json \<Rightarrow> outcome" where
  "ok_response j =
     Responded \<lparr>status = 200, retry_after = None, body_json = Inr j, body_text = Inr []\<rparr>"

definition error_response :: "int \<Rightarrow> string \<Rightarrow> outcome" where
  "error_response st msg =
     Responded \<lparr>status = st, retry_after = None, body_json = Inr (JObj [(''message'', JStr msg)]),
                body_text = Inr msg\<rparr>"

text \<open>A page matches a filter when the named property holds the filter's kind of text
  with exactly the given content.\<close>

definition matches :: "string \<Rightarrow> json \<Rightarrow> page \<Rightarrow> bool" where
  "matches db flt p =
     (py_str (parent p) = Inr db \<and>
      (case flt of
         JObj [(''property'', JStr prop), (kind, JObj [(''equals'', v)])] \<Rightarrow>
           (kind = ''rich_text'' \<and> map_of (stored p) prop = Some (rich_text_prop v)) \<or>
           (kind = ''title'' \<and> map_of (stored p) prop = Some (title_prop v))
       | _ \<Rightarrow> False))"

text \<open>A patch replaces the properties it names and keeps the others.\<close>

definition patch_props :: "(string \<times> json) list \<Rightarrow> (string \<times> json) list \<Rightarrow> (string \<times> json) list" where
  "patch_props new old = new @ filter (\<lambda>kv. map_of new (fst kv) = None) old"

definition notion_send :: "destination \<Rightarrow> request \<Rightarrow> outcome \<times> destination" where
  "notion_send d req =
     (if http_method req = ''POST'' \<and> url req = ''https://api.notion.com/v1/pages'' then
        (case json_data req of
           JObj [(''parent'', JObj [(''database_id'', db)]), (''properties'', JObj ps)] \<Rightarrow>
             (ok_response (JObj [(''id'', JStr (fresh_id (next_page d)))]),
              d\<lparr>pages := pages d @ [\<lparr>ident = fresh_id (next_page d), parent = db, stored = ps\<rparr>],
                next_page := Suc (next_page d)\<rparr>)
         | _ \<Rightarrow> (error_response 400 ''body failed validation'', d))
      else if http_method req = ''POST'' then
        (case Option.bind (strip_prefix ''https://api.notion.com/v1/databases/'' (url req))
                (strip_suffix ''/query'') of
           Some db \<Rightarrow>
             (case json_data req of
                JObj [(''filter'', flt)] \<Rightarrow>
                  (ok_response (JObj [(''results'',
                     JArr (map (\<lambda>p. JObj [(''id'', JStr (ident p))])
                             (filter (matches db flt) (pages d))))]), d)
              | _ \<Rightarrow> (error_response 400 ''body failed validation'', d))
         | None \<Rightarrow> (error_response 400 ''invalid request URL'', d))
      else if http_method req = ''PATCH'' then
        (case strip_prefix ''https://api.notion.com/v1/pages/'' (url req) of
           Some pid \<Rightarrow>
             (case json_data req of
                JObj [(''properties'', JObj ps)] \<Rightarrow>
                  if pid \<in> set (map ident (pages d)) then
                    (ok_response (JObj [(''id'', JStr pid)]),
                     d\<lparr>pages := map (\<lambda>p. if ident p = pid
                                           then p\<lparr>stored := patch_props ps (stored p)\<rparr> else p)
                                    (pages d)\<rparr>)
                  else (error_response 404 ''Could not find page'', d)
              | _ \<Rightarrow> (error_response 400 ''body failed validation'', d))
         | None \<Rightarrow> (error_response 400 ''invalid request URL'', d))
      else (error_response 400 ''invalid request URL'', d))"

text \<open>The records of database \<open>db\<close> whose identifier property \<^verbatim>\<open>Hevy ID\<close> holds \<open>s\<close>:
  what the Resolver's query for \<open>s\<close> selects.\<close>

definition records_with :: "destination \<Rightarrow> string \<Rightarrow> json \<Rightarrow> page list" where
  "records_with d db s = filter (matches db (filter_config ''Hevy ID'' ''rich_text'' s)) (pages d)"

text \<open>Every page was created by the destination, once.\<close>

definition wf_destination :: "destination \<Rightarrow> bool" where
  "wf_destination d =
     (distinct (map ident (pages d)) \<and>
      list_all (\<lambda>p. ident p \<in> fresh_id ` {..<next_page d}) (pages d))"

text \<open>
  Names for what a run on the reference destination sends and leaves behind: the three
  requests of the upsert protocol, the world after a request that was answered at once,
  the destination after a create and after a patch, the records holding a source id, and
  the two calls every upsert ends with.
\<close>

definition after_send :: "'e world \<Rightarrow> request \<Rightarrow> 'e \<Rightarrow> 'e world" where
  "after_send w req e = w\<lparr>env := e, trace := trace w @ [Sleep NOTION_REQUEST_DELAY, Send req]\<rparr>"

definition query_request :: "string \<Rightarrow> string \<Rightarrow> json \<Rightarrow> request" where
  "query_request key db s =
     \<lparr>http_method = ''POST'',
      url = ''https://api.notion.com/v1/databases/'' @ db @ ''/query'',
      headers = get_notion_headers key,
      json_data = JObj [(''filter'', filter_config ''Hevy ID'' ''rich_text'' s)]\<rparr>"

definition create_request :: "string \<Rightarrow> string \<Rightarrow> properties \<Rightarrow> request" where
  "create_request key db ps =
     \<lparr>http_method = ''POST'', url = ''https://api.notion.com/v1/pages'',
      headers = get_notion_headers key,
      json_data = JObj [(''parent'', JObj [(''database_id'', JStr db)]),
                        (''properties'', JObj ps)]\<rparr>"

definition patch_request :: "string \<Rightarrow> string \<Rightarrow> properties \<Rightarrow> request" where
  "patch_request key i ps =
     \<lparr>http_method = ''PATCH'', url = ''https://api.notion.com/v1/pages/'' @ i,
      headers = get_notion_headers key,
      json_data = JObj [(''properties'', JObj ps)]\<rparr>"

definition created :: "destination \<Rightarrow> string \<Rightarrow> properties \<Rightarrow> destination" where
  "created d db ps =
     d\<lparr>pages := pages d @ [\<lparr>ident = fresh_id (next_page d), parent = JStr db, stored = ps\<rparr>],
       next_page := Suc (next_page d)\<rparr>"

definition patched :: "destination \<Rightarrow> string \<Rightarrow> properties \<Rightarrow> destination" where
  "patched d i ps =
     d\<lparr>pages := map (\<lambda>p. if ident p = i then p\<lparr>stored := patch_props ps (stored p)\<rparr> else p)
                    (pages d)\<rparr>"

definition resolve_and_write ::
  "'e io \<Rightarrow> json \<Rightarrow> json \<Rightarrow> properties \<Rightarrow> string \<Rightarrow> ('e, json) action" where
  "resolve_and_write io database_id s ps key =
     bindA (find_page_by_hevy_id io database_id ''Hevy ID'' s key ''rich_text'')
       (\<lambda>existing_page_id.
     create_or_update_page io database_id existing_page_id (JObj ps) key)"

definition holds :: "string \<Rightarrow> json \<Rightarrow> page \<Rightarrow> bool" where
  "holds db s p = matches db (filter_config ''Hevy ID'' ''rich_text'' s) p"

text \<open>A destination that refuses every request.\<close>

definition refuse_all :: "unit \<Rightarrow> request \<Rightarrow> outcome \<times> unit" where
  "refuse_all u req = (error_response 400 ''body failed validation'', u)"

section \<open>Concrete environments\<close>

text \<open>A clock that stands still, around a given \<open>send\<close>; a service that answers every
  request with a 429 carrying a given \<^verbatim>\<open>Retry-After\<close> header; one that answers every
  request with a given status, JSON body and text.\<close>

definition fixed_clock :: "('e \<Rightarrow> request \<Rightarrow> outcome \<times> 'e) \<Rightarrow> 'e io" where
  "fixed_clock f = \<lparr>send = f, utcnow = (\<lambda>e. ''2024-01-01T00:00:00''), elapsed = (\<lambda>a b. Fin 0)\<rparr>"

definition always_429 :: "string option \<Rightarrow> unit \<Rightarrow> request \<Rightarrow> outcome \<times> unit" where
  "always_429 h u req =
     (Responded \<lparr>status = 429, retry_after = h,
                 body_json = Inr (JObj [(''message'', JStr ''rate limited'')]),
                 body_text = Inr ''rate limited''\<rparr>, u)"

definition always_answer :: "int \<Rightarrow> json \<Rightarrow> string \<Rightarrow> unit \<Rightarrow> request \<Rightarrow> outcome \<times> unit" where
  "always_answer st j t u req =
     (Responded \<lparr>status = st, retry_after = None, body_json = Inr j, body_text = Inr t\<rparr>, u)"

text \<open>A service whose every response has the given status and a body that cannot be
  read: the read raises \<open>e\<close>. And one whose every request times out.\<close>

definition unreadable :: "int \<Rightarrow> exn \<Rightarrow> unit \<Rightarrow> request \<Rightarrow> outcome \<times> unit" where
  "unreadable st e u req =
     (Responded \<lparr>status = st, retry_after = None, body_json = Inl e, body_text = Inl e\<rparr>, u)"

definition never_answers :: "unit \<Rightarrow> request \<Rightarrow> outcome \<times> unit" where
  "never_answers u req = (Failed TimeoutError, u)"

definition start :: "'e \<Rightarrow> 'e world" where
  "start e = \<lparr>env = e, trace = []\<rparr>"

definition probe :: request where
  "probe = \<lparr>http_method = ''POST'', url = ''https://api.notion.com/v1/pages'',
            headers = get_notion_headers ''secret'', json_data = JObj []\<rparr>"

text \<open>A workout performed from routine \<^verbatim>\<open>r1\<close>; an exercise and two of its sets.\<close>

definition sample_workout :: json where
  "sample_workout =
     JObj [(''id'', JStr ''w1''), (''title'', JStr ''Push day''), (''routine_id'', JStr ''r1''),
           (''exercises'', JArr [])]"

definition sample_exercise :: json where
  "sample_exercise = JObj [(''title'', JStr ''Squat''), (''exercise_template_id'', JStr ''t1'')]"

definition sample_set :: json where
  "sample_set = JObj [(''set_type'', JStr ''normal''), (''weight_kg'', JInt 100), (''reps'', JInt 5)]"


section \<open>Basic facts\<close>

lemma bindE_Inl [simp]: "bindE (Inl e) f = Inl e"
  by (simp add: bindE_def)

lemma bindE_Inr [simp]: "bindE (Inr x) f = f x"
  by (simp add: bindE_def)

lemma bindE_eq_Inr: "bindE m f = Inr y \<longleftrightarrow> (\<exists>x. m = Inr x \<and> f x = Inr y)"
  by (cases m) simp_all

lemma liftE_apply [simp]: "liftE r w = (r, w)"
  by (simp add: liftE_def)

lemma bindA_Inl [simp]: "m w = (Inl e, w') \<Longrightarrow> bindA m f w = (Inl e, w')"
  by (simp add: bindA_def)

lemma bindA_Inr [simp]: "m w = (Inr x, w') \<Longrightarrow> bindA m f w = f x w'"
  by (simp add: bindA_def)

lemma bindA_liftE [simp]:
  "bindA (liftE r) f w = (case r of Inl e \<Rightarrow> (Inl e, w) | Inr x \<Rightarrow> f x w)"
  by (cases r) (simp_all add: bindA_def)

lemma env_log_event [simp]: "env (log_event ev w) = env w"
  by (simp add: log_event_def)

lemma trace_log_event [simp]: "trace (log_event ev w) = trace w @ [ev]"
  by (simp add: log_event_def)

section \<open>Binary floating point\<close>

text \<open>\<open>floor_log2\<close> is the floor of the binary logarithm.\<close>

lemma pow2_power_int: "pow2 k = power_int 2 k"
proof (cases "0 \<le> k")
  case True
  then show ?thesis by (simp add: pow2_def power_int_def)
next
  case False
  have "inverse (2::rat) ^ nat (- k) = 1 / 2 ^ nat (- k)"
    by (simp only: inverse_eq_divide power_one_over)
  with False show ?thesis by (simp only: pow2_def power_int_def if_False)
qed

lemma pow2_pos: "0 < pow2 k"
  by (simp only: pow2_power_int zero_less_power_int zero_less_numeral)

lemma pow2_less_iff: "pow2 i < pow2 j \<longleftrightarrow> i < j"
proof
  assume "i < j"
  then show "pow2 i < pow2 j"
    unfolding pow2_power_int by (rule power_int_strict_increasing) simp
next
  assume l: "pow2 i < pow2 j"
  show "i < j"
  proof (rule ccontr)
    assume "\<not> i < j"
    then have "j \<le> i" by simp
    then have "pow2 j \<le> pow2 i"
      unfolding pow2_power_int by (rule power_int_increasing) simp
    with l show False by simp
  qed
qed

lemma pow2_diff: "pow2 (i - j) = pow2 i / pow2 j"
  unfolding pow2_power_int by (rule power_int_diff) simp

lemma floor_log2_bounds:
  assumes "0 < a"
  shows "pow2 (floor_log2 a) \<le> a \<and> a < pow2 (floor_log2 a + 1)"
proof -
  obtain n d where nd: "quotient_of a = (n, d)" by (cases "quotient_of a")
  then have d: "0 < d" and a: "a = of_int n / of_int d"
    by (auto simp: quotient_of_denom_pos quotient_of_div)
  from assms a d have n: "0 < n"
    by (simp add: zero_less_divide_iff)
  let ?k = "bitlen n - bitlen d"
  from bitlen_bounds [OF n] have n1: "(2::int) ^ nat (bitlen n - 1) \<le> n" and n2: "n < 2 ^ nat (bitlen n)"
    by auto
  from bitlen_bounds [OF d] have d1: "(2::int) ^ nat (bitlen d - 1) \<le> d" and d2: "d < 2 ^ nat (bitlen d)"
    by auto
  have bn: "1 \<le> bitlen n" and bd: "1 \<le> bitlen d"
    using n d by (auto simp: bitlen_alt_def)
  have N1: "pow2 (bitlen n - 1) \<le> of_int n"
  proof -
    have "(of_int ((2::int) ^ nat (bitlen n - 1)) :: rat) \<le> of_int n"
      using n1 by (simp only: of_int_le_iff)
    then show ?thesis using bn by (simp add: pow2_def)
  qed
  have N2: "of_int n < pow2 (bitlen n)"
  proof -
    have "(of_int n :: rat) < of_int ((2::int) ^ nat (bitlen n))"
      using n2 by (simp only: of_int_less_iff)
    then show ?thesis using bn by (simp add: pow2_def)
  qed
  have D1: "pow2 (bitlen d - 1) \<le> of_int d"
  proof -
    have "(of_int ((2::int) ^ nat (bitlen d - 1)) :: rat) \<le> of_int d"
      using d1 by (simp only: of_int_le_iff)
    then show ?thesis using bd by (simp add: pow2_def)
  qed
  have D2: "of_int d < pow2 (bitlen d)"
  proof -
    have "(of_int d :: rat) < of_int ((2::int) ^ nat (bitlen d))"
      using d2 by (simp only: of_int_less_iff)
    then show ?thesis using bd by (simp add: pow2_def)
  qed
  have dpos: "(0::rat) < of_int d" using d by simp
  have lower: "pow2 (?k - 1) < a"
  proof -
    have "pow2 (?k - 1) = pow2 (bitlen n - 1) / pow2 (bitlen d)"
      by (simp add: pow2_diff [symmetric] algebra_simps)
    also have "\<dots> \<le> of_int n / pow2 (bitlen d)"
      using N1 pow2_pos [of "bitlen d"] by (simp add: divide_right_mono)
    also have "\<dots> < of_int n / of_int d"
      using D2 dpos n by (simp add: divide_strict_left_mono pow2_pos)
    finally show ?thesis by (simp add: a)
  qed
  have upper: "a < pow2 (?k + 1)"
  proof -
    have "a = of_int n / of_int d" by (rule a)
    also have "\<dots> < pow2 (bitlen n) / of_int d"
      using N2 dpos by (simp add: divide_strict_right_mono)
    also have "\<dots> \<le> pow2 (bitlen n) / pow2 (bitlen d - 1)"
      using D1 pow2_pos [of "bitlen d - 1"] pow2_pos [of "bitlen n"]
      by (simp add: divide_left_mono)
    also have "\<dots> = pow2 (?k + 1)"
      by (simp add: pow2_diff [symmetric] algebra_simps)
    finally show ?thesis .
  qed
  show ?thesis
  proof (cases "pow2 ?k \<le> a")
    case True
    then show ?thesis using upper by (simp add: floor_log2_def nd Let_def)
  next
    case False
    then show ?thesis using lower by (simp add: floor_log2_def nd Let_def)
  qed
qed

lemma floor_log2_eq:
  assumes "pow2 e \<le> a" and "a < pow2 (e + 1)"
  shows "floor_log2 a = e"
proof -
  have "0 < a" using assms(1) pow2_pos [of e] by simp
  from floor_log2_bounds [OF this]
  have "pow2 (floor_log2 a) \<le> a" "a < pow2 (floor_log2 a + 1)" by simp_all
  with assms have "pow2 (floor_log2 a) < pow2 (e + 1)" "pow2 e < pow2 (floor_log2 a + 1)"
    by simp_all
  then show ?thesis by (simp add: pow2_less_iff)
qed

lemma floor_numeral_div:
  "\<lfloor>numeral a / numeral b :: rat\<rfloor> = numeral a div numeral b"
  using floor_divide_of_int_eq [of "numeral a" "numeral b", where ?'a = rat] by simp

text \<open>With the binary exponent of \<open>q\<close> at hand, \<open>round_double q\<close> is plain arithmetic.\<close>

lemma round_double_at:
  assumes "pow2 e \<le> \<bar>q\<bar>" and "\<bar>q\<bar> < pow2 (e + 1)"
  shows "round_double q =
     (let p = max (e - 52) (- 1074);
          m = round_half_even (\<bar>q\<bar> / pow2 p);
          v = of_int m * pow2 p
      in if pow2 1024 \<le> v then (if 0 < q then PosInf else NegInf)
         else if m = 0 then (if 0 < q then Fin 0 else NegZero)
         else Fin (if 0 < q then v else - v))"
proof -
  have "q \<noteq> 0" using assms(1) pow2_pos [of e] by auto
  then show ?thesis
    unfolding round_double_def Let_def floor_log2_eq [OF assms] by simp
qed

lemma lb_per_kg: "LB_PER_KG = Fin (4964362905246771 / 2251799813685248)"
  unfolding LB_PER_KG_def
  by (subst round_double_at [of 1])
     (simp_all add: pow2_def round_half_even_def Let_def floor_numeral_div)

lemma double_100: "round_double 100 = Fin 100"
  by (subst round_double_at [of 6])
     (simp_all add: pow2_def round_half_even_def Let_def floor_numeral_div)

lemma product_100:
  "py_fmul (Fin 100) LB_PER_KG = Fin (484801064965505 / 2199023255552)"
  unfolding lb_per_kg py_fmul_def
  apply (simp add: Let_def)
  apply (subst round_double_at [of 7])
    apply (simp_all add: pow2_def round_half_even_def Let_def floor_numeral_div)
  done

lemma round2_100:
  "py_round2 (Fin (484801064965505 / 2199023255552)) = round_double (22046 / 100)"
  by (simp add: round_half_even_def Let_def floor_numeral_div)

lemma weight_100: "weight_lbs (JInt 100) = Inr (round_double (22046 / 100))"
  by (simp add: weight_lbs_def double_100 product_100 round2_100 del: py_round2.simps)

section \<open>Property sets\<close>

lemma bindE_InrE:
  assumes "bindE m f = Inr y"
  obtains x where "m = Inr x" and "f x = Inr y"
  using assms by (cases m) simp_all

lemma assign_where_other:
  "assign_where p steps = Inr p' \<Longrightarrow> k \<notin> set (map (\<lambda>s. fst (snd s)) steps) \<Longrightarrow>
   map_of p' k = map_of p k"
proof (induction steps arbitrary: p)
  case Nil
  then show ?case by simp
next
  case (Cons s steps)
  obtain c k0 v where s: "s = (c, k0, v)" by (cases s)
  with Cons.prems have k: "k \<noteq> k0" and rest: "k \<notin> set (map (\<lambda>s. fst (snd s)) steps)"
    by auto
  show ?case
  proof (cases c)
    case False
    with Cons.prems s have "assign_where p steps = Inr p'" by simp
    from Cons.IH [OF this rest] show ?thesis .
  next
    case True
    with Cons.prems s obtain x where v: "v = Inr x"
      and run: "assign_where (AList.update k0 x p) steps = Inr p'"
      by (cases v) simp_all
    from Cons.IH [OF run rest] k show ?thesis by (simp add: update_conv')
  qed
qed

lemma assign_where_at:
  "assign_where p steps = Inr p' \<Longrightarrow> distinct (map (\<lambda>s. fst (snd s)) steps) \<Longrightarrow>
   (c, k, v) \<in> set steps \<Longrightarrow>
   (if c then \<exists>x. v = Inr x \<and> map_of p' k = Some x else map_of p' k = map_of p k)"
proof (induction steps arbitrary: p)
  case Nil
  then show ?case by simp
next
  case (Cons s steps)
  obtain c0 k0 v0 where s: "s = (c0, k0, v0)" by (cases s)
  from Cons.prems(2) s have fresh: "k0 \<notin> set (map (\<lambda>s. fst (snd s)) steps)"
    and dist: "distinct (map (\<lambda>s. fst (snd s)) steps)"
    by auto
  show ?case
  proof (cases "(c, k, v) = s")
    case True
    then have eq: "c0 = c" "k0 = k" "v0 = v" using s by auto
    show ?thesis
    proof (cases c)
      case False
      with Cons.prems(1) s eq have "assign_where p steps = Inr p'" by simp
      from assign_where_other [OF this] fresh eq False show ?thesis by simp
    next
      case True
      with Cons.prems(1) s eq obtain x where v: "v = Inr x"
        and run: "assign_where (AList.update k x p) steps = Inr p'"
        by (cases v) simp_all
      from assign_where_other [OF run] fresh eq have "map_of p' k = Some x"
        by (simp add: update_conv')
      with True v show ?thesis by simp
    qed
  next
    case False
    with Cons.prems(3) have mem: "(c, k, v) \<in> set steps" by auto
    then have "k \<in> set (map (\<lambda>s. fst (snd s)) steps)" by force
    with fresh have k: "k \<noteq> k0" by auto
    show ?thesis
    proof (cases c0)
      case False
      with Cons.prems(1) s have "assign_where p steps = Inr p'" by simp
      from Cons.IH [OF this dist mem] show ?thesis .
    next
      case True
      with Cons.prems(1) s obtain x where
        run: "assign_where (AList.update k0 x p) steps = Inr p'"
        by (cases v0) simp_all
      from Cons.IH [OF run dist mem] k show ?thesis by (simp add: update_conv')
    qed
  qed
qed

lemma set_properties_id:
  assumes "set_properties now workout_id workout_page_id exercise exercise_index set_data
             set_index page = Inr (cid, ps)"
  shows "\<exists>wid. py_str workout_id = Inr wid \<and>
               cid = composite_set_id wid exercise_index set_index"
  using assms unfolding set_properties_def
  by (elim bindE_InrE) auto

lemma set_properties_hevy_id:
  assumes "set_properties now workout_id workout_page_id exercise exercise_index set_data
             set_index page = Inr (cid, ps)"
  shows "map_of ps ''Hevy ID'' = Some (rich_text_prop (JStr cid))"
  using assms unfolding set_properties_def
  apply (elim bindE_InrE)
  apply (drule assign_where_other [where k = "''Hevy ID''"])
   apply simp
  apply simp
  done

lemma set_properties_order:
  assumes "set_properties now workout_id workout_page_id exercise exercise_index set_data
             set_index page = Inr (cid, ps)"
  shows "map_of ps ''Exercise Order'' = Some (number_prop (JInt (int exercise_index + 1)))"
  using assms unfolding set_properties_def
  apply (elim bindE_InrE)
  apply (drule assign_where_other [where k = "''Exercise Order''"])
   apply simp
  apply simp
  done

lemma set_properties_number:
  assumes "set_properties now workout_id workout_page_id exercise exercise_index set_data
             set_index page = Inr (cid, ps)"
  shows "map_of ps ''Set Number'' = Some (number_prop (JInt (int set_index + 1)))"
  using assms unfolding set_properties_def
  apply (elim bindE_InrE)
  apply (drule assign_where_other [where k = "''Set Number''"])
   apply simp
  apply simp
  done


section \<open>Decimal rendering and composite identifiers\<close>

lemmas [simp del] = show_nat.simps

lemma show_nat_digit: "n < 10 \<Longrightarrow> show_nat n = [digit_char n]"
  by (subst show_nat.simps) simp

lemma show_nat_0: "show_nat 0 = ''0''" and show_nat_1: "show_nat (Suc 0) = ''1''"
  by (simp_all add: show_nat_digit digit_char_def)


lemma digit_char_facts:
  assumes "d < 10"
  shows "digit_val (digit_char d) = d \<and> digit_char d \<noteq> CHR ''-'' \<and> CHR ''-'' \<noteq> digit_char d"
proof -
  from assms have "d = 0 \<or> d = 1 \<or> d = 2 \<or> d = 3 \<or> d = 4 \<or> d = 5 \<or> d = 6 \<or> d = 7 \<or>
      d = 8 \<or> d = 9"
    by arith
  then show ?thesis
    by (elim disjE) (simp_all add: digit_char_def digit_val_def)
qed

lemma read_nat_snoc: "read_nat (s @ [c]) = 10 * read_nat s + digit_val c"
  by (simp add: read_nat_def)

lemma read_show_nat: "read_nat (show_nat n) = n"
proof (induction n rule: show_nat.induct)
  case (1 n)
  show ?case
  proof (cases "n < 10")
    case True
    then show ?thesis
      by (subst show_nat.simps) (simp add: read_nat_def digit_char_facts)
  next
    case False
    with 1 have "read_nat (show_nat (n div 10)) = n div 10" by simp
    with False show ?thesis
      by (subst show_nat.simps) (simp add: read_nat_snoc digit_char_facts)
  qed
qed

lemma show_nat_inj:
  assumes "show_nat a = show_nat b"
  shows "a = b"
proof -
  have "a = read_nat (show_nat a)" by (simp only: read_show_nat)
  also have "\<dots> = read_nat (show_nat b)" by (simp only: assms)
  also have "\<dots> = b" by (simp only: read_show_nat)
  finally show ?thesis .
qed

lemma no_dash_in_show_nat: "CHR ''-'' \<notin> set (show_nat n)"
proof (induction n rule: show_nat.induct)
  case (1 n)
  show ?case
  proof (cases "n < 10")
    case True
    then show ?thesis
      by (subst show_nat.simps) (simp add: digit_char_facts)
  next
    case False
    with 1 have "CHR ''-'' \<notin> set (show_nat (n div 10))" by simp
    with False show ?thesis
      by (subst show_nat.simps) (simp add: digit_char_facts)
  qed
qed

lemma split_at_first:
  "c \<notin> set xs \<Longrightarrow> c \<notin> set xs' \<Longrightarrow> xs @ c # ys = xs' @ c # ys' \<Longrightarrow> xs = xs' \<and> ys = ys'"
proof (induction xs arbitrary: xs')
  case Nil
  then show ?case by (cases xs') auto
next
  case (Cons x xs)
  then show ?case by (cases xs') auto
qed

lemma composite_set_id_inj:
  assumes "composite_set_id w a b = composite_set_id w c d"
  shows "a = c \<and> b = d"
proof -
  from assms have "show_nat a @ CHR ''-'' # show_nat b = show_nat c @ CHR ''-'' # show_nat d"
    by (simp add: composite_set_id_def)
  from split_at_first [OF no_dash_in_show_nat no_dash_in_show_nat this]
  show ?thesis by (auto dest: show_nat_inj)
qed

lemma str_replace_delete: "str_replace a [] s = filter (\<lambda>c. c \<noteq> a) s"
  by (induction s) (simp_all add: str_replace_def)

lemma relation_to_str:
  "relation_to (JStr i) = Inr (relation_prop (filter (\<lambda>c. c \<noteq> CHR ''-'') i))"
  by (simp add: relation_to_def str_replace_delete)

lemma workout_properties_routine:
  assumes "workout_properties now workout page = Inr (hid, ps)"
  shows "if truthy page
         then \<exists>r. relation_to page = Inr r \<and> map_of ps ''Routine'' = Some r
         else map_of ps ''Routine'' = None"
  using assms unfolding workout_properties_def
  apply (elim bindE_InrE)
  apply (drule assign_where_at [where k = "''Routine''" and c = "truthy page"
           and v = "relation_to page"])
    apply simp
   apply simp
  apply auto
  done

lemma sample_workout_properties:
  "workout_properties now sample_workout page =
     (if truthy page
      then bindE (relation_to page) (\<lambda>r. Inr (JStr ''w1'',
             [(''Name'', title_prop (JStr ''Push day'')),
              (''Hevy ID'', rich_text_prop (JStr ''w1'')),
              (''Exercise Count'', number_prop (JInt 0)),
              (''Total Sets'', number_prop (JInt 0)),
              (''Last Synced'', date_prop (JStr now)),
              (''Routine'', r)]))
      else Inr (JStr ''w1'',
             [(''Name'', title_prop (JStr ''Push day'')),
              (''Hevy ID'', rich_text_prop (JStr ''w1'')),
              (''Exercise Count'', number_prop (JInt 0)),
              (''Total Sets'', number_prop (JInt 0)),
              (''Last Synced'', date_prop (JStr now))]))"
  by (cases "relation_to page")
     (simp_all add: workout_properties_def sample_workout_def py_len_def total_sets_of_def)

text \<open>The property sets of the two sample sets, at positions 1 and 0 of exercise 0.\<close>

lemma sample_set_properties:
  "set_properties ''2024-01-01T00:00:00'' (JStr ''w1'') (JStr ''1f2e-3d4c'') sample_exercise 0
     sample_set 1 JNull =
     Inr (''w1-0-1'',
          [(''Exercise Name'', title_prop (JStr ''Squat'')),
           (''Hevy ID'', rich_text_prop (JStr ''w1-0-1'')),
           (''Exercise Order'', number_prop (JInt 1)),
           (''Set Number'', number_prop (JInt 2)),
           (''Set Type'', select_prop (JStr ''normal'')),
           (''Last Synced'', date_prop (JStr ''2024-01-01T00:00:00'')),
           (''Workout'', relation_prop ''1f2e3d4c''),
           (''Weight (lb)'', number_prop (JFloat (round_double (22046 / 100)))),
           (''Reps'', number_prop (JInt 5))])"
  by (simp add: set_properties_def sample_exercise_def sample_set_def composite_set_id_def
      show_nat_0 show_nat_1 relation_to_str weight_100)


section \<open>The gateway's retry loop\<close>

lemma retry_loop_unknown:
  "\<not> known_method req \<Longrightarrow>
   retry_loop io req (Suc n) attempt w =
     retry_loop io req n (Suc attempt) (log_event (Sleep NOTION_REQUEST_DELAY) w)"
  by (simp add: Let_def)

text \<open>One iteration for a known method, with the world after the send written out.\<close>

lemma retry_loop_known:
  "known_method req \<Longrightarrow>
   retry_loop io req (Suc n) attempt w =
     (let w2 = w\<lparr>env := snd (send io (env w) (sent_request req)),
                 trace := trace w @ [Sleep NOTION_REQUEST_DELAY, Send (sent_request req)]\<rparr>
      in case attempt_step (fst (send io (env w) (sent_request req))) attempt of
             Inl e \<Rightarrow> (Inl e, w2)
           | Inr (Return res) \<Rightarrow> (Inr res, w2)
           | Inr (Continue d) \<Rightarrow>
               retry_loop io req n (Suc attempt) (log_event (Sleep (of_int d)) w2))"
  by (simp add: Let_def log_event_def split: sum.split step.split)

lemmas [simp del] = retry_loop.simps(2)

lemma request_eta:
  "\<lparr>http_method = http_method req, url = url req, headers = headers req,
    json_data = json_data req\<rparr> = req"
  by simp

lemma answer_0: "answer io req e 0 = fst (send io e req)"
  by (simp add: answer_def)

lemma answer_Suc: "answer io req e (Suc k) = answer io req (snd (send io e req)) k"
  by (simp add: answer_def)

text \<open>What an attempt ends in, by what the request did.\<close>

lemma attempt_step_rate_limited:
  "rate_limited out a \<Longrightarrow> attempt_step out a = Inr (Continue (retry_wait out a))"
  by (auto simp: rate_limited_def retry_wait_def attempt_step_def try_request_def
      split: outcome.splits sum.splits)

lemma attempt_step_200:
  "status r = 200 \<Longrightarrow> body_json r = Inr j \<Longrightarrow>
   attempt_step (Responded r) a = Inr (Return (200, j, JNull))"
  by (simp add: attempt_step_def try_request_def)

lemma attempt_step_other:
  "status r \<noteq> 200 \<Longrightarrow> status r \<noteq> 429 \<Longrightarrow>
   attempt_step (Responded r) a =
     (case body_text r of
        Inr t \<Rightarrow> Inr (Return (status r, JNull, JStr t))
      | Inl e \<Rightarrow>
          if e = TimeoutError then
            (if a < NOTION_MAX_RETRIES - 1
             then Inr (Continue (NOTION_RETRY_BASE_DELAY * 2 ^ a))
             else Inr (Return (0, JNull, JStr ''Request timeout after retries'')))
          else Inl e)"
  by (simp add: attempt_step_def try_request_def split: sum.split)

text \<open>An attempt that returns: the \<^verbatim>\<open>try\<close> returned, or the handler did, on the last
  attempt.\<close>

lemma attempt_step_Return:
  assumes "attempt_step out a = Inr (Return res)"
  shows "try_request out a = Inr (Return res)
       \<or> (try_request out a = Inl TimeoutError \<and> \<not> a < NOTION_MAX_RETRIES - 1 \<and>
          res = (0, JNull, JStr ''Request timeout after retries''))"
  using assms by (auto simp: attempt_step_def split: sum.splits if_splits)

lemma try_request_Return:
  assumes "try_request out a = Inr (Return (st, body, err))"
  shows "\<exists>r. out = Responded r \<and> status r = st \<and> st \<noteq> 429 \<and>
           (if st = 200 then body_json r = Inr body \<and> err = JNull
            else body = JNull \<and> (\<exists>t. body_text r = Inr t \<and> err = JStr t))"
  using assms
  by (auto simp: try_request_def bindE_eq_Inr split: outcome.splits if_splits)

text \<open>A retried attempt before the last: a 429 or a timeout. On the last attempt only a
  429 is retried.\<close>

lemma retried_last:
  assumes "retried out a" and "\<not> a < NOTION_MAX_RETRIES - 1"
  shows "rate_limited out a"
  using assms
  by (auto simp: retried_def rate_limited_def attempt_step_def try_request_def bindE_def
      split: outcome.splits sum.splits if_splits step.splits)

text \<open>While every answer is a 429 with a readable delay, the loop runs to its end.\<close>

lemma retry_loop_rate_limited:
  assumes "known_method req"
  shows "\<forall>k<n. rate_limited (answer io (sent_request req) (env w) k) (a + k) \<Longrightarrow>
    retry_loop io req n a w =
      (Inr (429, JNull, JStr ''Rate limited after max retries''),
       w\<lparr>env := env_after io (sent_request req) n (env w),
         trace := trace w @ concat (map (\<lambda>k.
            [Sleep NOTION_REQUEST_DELAY, Send (sent_request req),
             Sleep (of_int (retry_wait (answer io (sent_request req) (env w) k) (a + k)))])
            [0..<n])\<rparr>)"
proof (induction n arbitrary: a w)
  case 0
  then show ?case by simp
next
  case (Suc n)
  let ?s = "sent_request req"
  let ?w2 = "w\<lparr>env := snd (send io (env w) ?s),
               trace := trace w @ [Sleep NOTION_REQUEST_DELAY, Send ?s]\<rparr>"
  let ?d = "retry_wait (answer io ?s (env w) 0) a"
  from Suc.prems have "rate_limited (answer io ?s (env w) 0) (a + 0)" by blast
  then have r: "attempt_step (fst (send io (env w) ?s)) a = Inr (Continue ?d)"
    using attempt_step_rate_limited [of "answer io ?s (env w) 0" a] by (simp add: answer_0)
  let ?w3 = "log_event (Sleep (of_int ?d)) ?w2"
  have step: "retry_loop io req (Suc n) a w = retry_loop io req n (Suc a) ?w3"
    by (simp add: retry_loop_known [OF assms] Let_def r)
  have "\<forall>k<n. rate_limited (answer io ?s (env ?w3) k) (Suc a + k)"
    using Suc.prems by (auto simp: answer_Suc)
  from Suc.IH [OF this]
  have "retry_loop io req (Suc n) a w =
      (Inr (429, JNull, JStr ''Rate limited after max retries''),
       ?w3\<lparr>env := env_after io ?s n (env ?w3),
         trace := trace ?w3 @ concat (map (\<lambda>k.
            [Sleep NOTION_REQUEST_DELAY, Send ?s,
             Sleep (of_int (retry_wait (answer io ?s (env ?w3) k) (Suc a + k)))]) [0..<n])\<rparr>)"
    by (simp only: step)
  then show ?case
    by (simp add: upt_rec [of 0 "Suc n"] map_Suc_upt [symmetric] answer_Suc
        log_event_def comp_def del: upt_Suc of_int_min)
qed

text \<open>A run that returns: some attempt returned, every attempt before it having been
  retried, or every attempt was retried and the loop fell through.\<close>

lemma retry_loop_returns:
  assumes "known_method req"
  shows "retry_loop io req n a w = (Inr res, w') \<Longrightarrow>
    (\<exists>k<n. (\<forall>i<k. retried (answer io (sent_request req) (env w) i) (a + i)) \<and>
            attempt_step (answer io (sent_request req) (env w) k) (a + k) = Inr (Return res))
    \<or> ((\<forall>i<n. retried (answer io (sent_request req) (env w) i) (a + i)) \<and>
        res = (429, JNull, JStr ''Rate limited after max retries''))"
proof (induction n arbitrary: a w)
  case 0
  then show ?case by simp
next
  case (Suc n)
  let ?s = "sent_request req"
  let ?w2 = "w\<lparr>env := snd (send io (env w) ?s),
               trace := trace w @ [Sleep NOTION_REQUEST_DELAY, Send ?s]\<rparr>"
  note eq = Suc.prems [unfolded retry_loop_known [OF assms] Let_def]
  show ?case
  proof (cases "attempt_step (answer io ?s (env w) 0) a")
    case (Inl e)
    with eq show ?thesis by (simp add: answer_0)
  next
    case (Inr st)
    show ?thesis
    proof (cases st)
      case (Return res')
      with eq Inr have "res' = res" by (simp add: answer_0)
      with Inr Return have "attempt_step (answer io ?s (env w) 0) (a + 0) = Inr (Return res)"
        by simp
      then show ?thesis by blast
    next
      case (Continue d)
      let ?w3 = "log_event (Sleep (of_int d)) ?w2"
      from eq Inr Continue have run: "retry_loop io req n (Suc a) ?w3 = (Inr res, w')"
        by (simp add: answer_0)
      have first: "retried (answer io ?s (env w) 0) a"
        using Inr Continue by (simp add: retried_def)
      have shift: "answer io ?s (env ?w3) i = answer io ?s (env w) (Suc i)" for i
        by (simp add: answer_Suc)
      from Suc.IH [OF run]
      show ?thesis
      proof (elim disjE exE conjE)
        fix k
        assume k: "k < n"
          and before: "\<forall>i<k. retried (answer io ?s (env ?w3) i) (Suc a + i)"
          and here: "attempt_step (answer io ?s (env ?w3) k) (Suc a + k) = Inr (Return res)"
        have "\<forall>i<Suc k. retried (answer io ?s (env w) i) (a + i)"
        proof (intro allI impI)
          fix i assume "i < Suc k"
          then show "retried (answer io ?s (env w) i) (a + i)"
            using first before [unfolded shift] by (cases i) simp_all
        qed
        moreover from here [unfolded shift] have
          "attempt_step (answer io ?s (env w) (Suc k)) (a + Suc k) = Inr (Return res)"
          by simp
        moreover from k have "Suc k < Suc n" by simp
        ultimately show ?thesis by blast
      next
        assume every: "\<forall>i<n. retried (answer io ?s (env ?w3) i) (Suc a + i)"
          and res: "res = (429, JNull, JStr ''Rate limited after max retries'')"
        have "\<forall>i<Suc n. retried (answer io ?s (env w) i) (a + i)"
        proof (intro allI impI)
          fix i assume "i < Suc n"
          then show "retried (answer io ?s (env w) i) (a + i)"
            using first every [unfolded shift] by (cases i) simp_all
        qed
        with res show ?thesis by blast
      qed
    qed
  qed
qed

text \<open>The four shapes: which status each has, that no triple has two of them, and that
  a returned triple has one.\<close>

lemma case_Responded:
  "(case out of Responded r \<Rightarrow> final r | Failed e \<Rightarrow> False) \<longleftrightarrow>
     (\<exists>r. out = Responded r \<and> final r)"
  by (cases out) simp_all

lemma case_text:
  "(case x of Inr t \<Rightarrow> err = JStr t | Inl e \<Rightarrow> False) \<longleftrightarrow> (\<exists>t. x = Inr t \<and> err = JStr t)"
  by (cases x) simp_all

lemma ended_by_iff:
  "ended_by ans final \<longleftrightarrow>
     (\<exists>k<NOTION_MAX_RETRIES. (\<forall>i<k. retried (ans i) i) \<and>
        (\<exists>r. ans k = Responded r \<and> final r))"
  by (simp add: ended_by_def list_ex_iff list_all_iff case_Responded Bex_def Ball_def)

lemma exhausted_iff:
  "exhausted ans \<longleftrightarrow> (\<forall>i<NOTION_MAX_RETRIES - 1. retried (ans i) i)"
  by (auto simp: exhausted_def list_all_iff)

text \<open>An attempt that a response with a readable text and a status other than 200 and 429
  answers is neither retried nor timed out.\<close>

lemma passed_through_final:
  assumes "status r \<noteq> 200" and "status r \<noteq> 429" and "body_text r = Inr t"
  shows "\<not> retried (Responded r) a" and "\<not> timed_out (Responded r) a"
  using assms by (simp_all add: retried_def timed_out_def attempt_step_def try_request_def)

lemma shape_status:
  assumes "has_shape ans (st, body, err) s"
  shows "(s = Success \<longleftrightarrow> st = 200) \<and> (s = RateLimitExhausted \<longleftrightarrow> st = 429) \<and>
         (s = TimeoutExhausted \<longrightarrow> st = 0)"
  using assms by (cases s) (simp_all add: has_shape_def)

lemma shape_parts:
  assumes "has_shape ans (st, body, err) s"
  shows "(st = 200 \<longrightarrow> err = JNull) \<and> (st \<noteq> 200 \<longrightarrow> body = JNull \<and> (\<exists>t. err = JStr t))"
  using assms
  by (cases s) (auto simp: has_shape_def ended_by_iff case_text)

lemma not_both_failures:
  assumes p: "has_shape ans (st, body, err) PassedThrough"
    and t: "has_shape ans (st, body, err) TimeoutExhausted"
  shows False
proof -
  from p obtain k r u where k: "k < NOTION_MAX_RETRIES"
    and r: "ans k = Responded r" "status r = st" "body_text r = Inr u"
    and st: "st \<noteq> 200" "st \<noteq> 429"
    by (auto simp: has_shape_def ended_by_iff case_text)
  from t have ex: "\<forall>i<NOTION_MAX_RETRIES - 1. retried (ans i) i"
    and last: "timed_out (ans (NOTION_MAX_RETRIES - 1)) (NOTION_MAX_RETRIES - 1)"
    by (simp_all add: has_shape_def exhausted_iff)
  from r st have final: "\<not> retried (ans k) k" "\<not> timed_out (ans k) k"
    using passed_through_final [of r u k] by simp_all
  show False
  proof (cases "k < NOTION_MAX_RETRIES - 1")
    case True
    with ex final(1) show False by blast
  next
    case False
    with k have "k = NOTION_MAX_RETRIES - 1" by simp
    with last final(2) show False by simp
  qed
qed

lemma shape_unique:
  assumes "has_shape ans (st, body, err) s" and "has_shape ans (st, body, err) s'"
  shows "s = s'"
proof (rule ccontr)
  assume ne: "s \<noteq> s'"
  from shape_status [OF assms(1)] shape_status [OF assms(2)] ne
  have "(s = PassedThrough \<and> s' = TimeoutExhausted) \<or> (s = TimeoutExhausted \<and> s' = PassedThrough)"
    by (cases s; cases s') auto
  with assms not_both_failures [of ans st body err] show False by blast
qed

lemma returned_shape:
  assumes "known_method req"
    and run: "retry_loop io req NOTION_MAX_RETRIES 0 w = (Inr (st, body, err), w')"
  shows "\<exists>s. has_shape (answer io (sent_request req) (env w)) (st, body, err) s"
proof -
  let ?ans = "answer io (sent_request req) (env w)"
  from retry_loop_returns [OF assms(1) run]
  show ?thesis
  proof (elim disjE exE conjE)
    fix k
    assume k: "k < NOTION_MAX_RETRIES"
      and before: "\<forall>i<k. retried (?ans i) (0 + i)"
      and here: "attempt_step (?ans k) (0 + k) = Inr (Return (st, body, err))"
    from before have before': "\<forall>i<k. retried (?ans i) i" by simp
    from attempt_step_Return [OF here]
    show ?thesis
    proof (elim disjE conjE)
      assume "try_request (?ans k) (0 + k) = Inr (Return (st, body, err))"
      from try_request_Return [OF this]
      obtain r where r: "?ans k = Responded r" "status r = st" "st \<noteq> 429"
        "if st = 200 then body_json r = Inr body \<and> err = JNull
         else body = JNull \<and> (\<exists>t. body_text r = Inr t \<and> err = JStr t)"
        by blast
      show ?thesis
      proof (cases "st = 200")
        case True
        with r k before' have "has_shape ?ans (st, body, err) Success"
          by (auto simp: has_shape_def ended_by_iff)
        then show ?thesis ..
      next
        case False
        with r k before' have "has_shape ?ans (st, body, err) PassedThrough"
          by (auto simp: has_shape_def ended_by_iff case_text)
        then show ?thesis ..
      qed
    next
      assume t: "try_request (?ans k) (0 + k) = Inl TimeoutError"
        and last: "\<not> 0 + k < NOTION_MAX_RETRIES - 1"
        and res: "(st, body, err) = (0, JNull, JStr ''Request timeout after retries'')"
      from last k have "k = NOTION_MAX_RETRIES - 1" by simp
      with t before' res have "has_shape ?ans (st, body, err) TimeoutExhausted"
        by (simp add: has_shape_def exhausted_iff timed_out_def)
      then show ?thesis ..
    qed
  next
    assume every: "\<forall>i<NOTION_MAX_RETRIES. retried (?ans i) (0 + i)"
      and res: "(st, body, err) = (429, JNull, JStr ''Rate limited after max retries'')"
    from every have "retried (?ans (NOTION_MAX_RETRIES - 1)) (NOTION_MAX_RETRIES - 1)"
      by (simp add: NOTION_MAX_RETRIES_def)
    then have "rate_limited (?ans (NOTION_MAX_RETRIES - 1)) (NOTION_MAX_RETRIES - 1)"
      by (rule retried_last) simp
    with every res have "has_shape ?ans (st, body, err) RateLimitExhausted"
      by (simp add: has_shape_def exhausted_iff)
    then show ?thesis ..
  qed
qed

lemma known_probe: "known_method probe"
  by (simp add: known_method_def probe_def)

lemma sent_probe: "sent_request probe = probe"
  by (simp add: sent_request_def probe_def)

lemma py_int_str_http_date:
  "py_int_str ''Wed, 21 Oct 2015 07:28:00 GMT'' = Inl (ValueError ''int()'')"
  by code_simp

lemma refused_probe:
  "notion_request_with_retry (fixed_clock (always_answer st j t)) (http_method probe) (url probe)
     (headers probe) (json_data probe) (start ()) =
     (if st = 200 then Inr (200, j, JNull)
      else if st = 429 then Inr (429, JNull, JStr ''Rate limited after max retries'')
      else Inr (st, JNull, JStr t),
      \<lparr>env = (), trace =
         (if st = 429
          then [Sleep (1 / 2), Send probe, Sleep 2, Sleep (1 / 2), Send probe, Sleep 4,
                Sleep (1 / 2), Send probe, Sleep 8, Sleep (1 / 2), Send probe, Sleep 16,
                Sleep (1 / 2), Send probe, Sleep 30]
          else [Sleep (1 / 2), Send probe])\<rparr>)"
  by (simp add: notion_request_with_retry_def NOTION_MAX_RETRIES_def eval_nat_numeral
      retry_loop_known known_probe [unfolded probe_def] sent_probe [unfolded probe_def]
      probe_def fixed_clock_def always_answer_def start_def header_delay_def
      attempt_step_def try_request_def
      NOTION_REQUEST_DELAY_def NOTION_RETRY_BASE_DELAY_def NOTION_MAX_RETRY_DELAY_def
      Let_def log_event_def)

lemma unanswered_probe:
  "notion_request_with_retry (fixed_clock never_answers) (http_method probe) (url probe)
     (headers probe) (json_data probe) (start ()) =
     (Inr (0, JNull, JStr ''Request timeout after retries''),
      \<lparr>env = (), trace =
         [Sleep (1 / 2), Send probe, Sleep 2, Sleep (1 / 2), Send probe, Sleep 4,
          Sleep (1 / 2), Send probe, Sleep 8, Sleep (1 / 2), Send probe, Sleep 16,
          Sleep (1 / 2), Send probe]\<rparr>)"
  by (simp add: notion_request_with_retry_def NOTION_MAX_RETRIES_def eval_nat_numeral
      retry_loop_known known_probe [unfolded probe_def] sent_probe [unfolded probe_def]
      probe_def fixed_clock_def never_answers_def start_def
      attempt_step_def try_request_def
      NOTION_REQUEST_DELAY_def NOTION_RETRY_BASE_DELAY_def
      Let_def log_event_def)

section \<open>Runs on the reference destination\<close>

lemma gateway_first_200:
  assumes "known_method req"
    and "fst (send io (env w) (sent_request req)) = Responded r"
    and "status r = 200" and "body_json r = Inr j"
  shows "notion_request_with_retry io (http_method req) (url req) (headers req) (json_data req) w =
           (Inr (200, j, JNull),
            w\<lparr>env := snd (send io (env w) (sent_request req)),
              trace := trace w @ [Sleep NOTION_REQUEST_DELAY, Send (sent_request req)]\<rparr>)"
  using assms
  by (simp add: notion_request_with_retry_def request_eta NOTION_MAX_RETRIES_def eval_nat_numeral
      retry_loop_known Let_def attempt_step_200)

lemma strip_prefix_append [simp]: "strip_prefix p (p @ s) = Some s"
  by (induction p) simp_all

lemma strip_suffix_append [simp]: "strip_suffix suf (s @ suf) = Some s"
  by (simp add: strip_suffix_def)

lemma notion_send_query:
  "notion_send d (query_request key db s) =
     (ok_response (JObj [(''results'',
        JArr (map (\<lambda>p. JObj [(''id'', JStr (ident p))]) (records_with d db s)))]), d)"
  by (simp add: notion_send_def query_request_def records_with_def filter_config_def)

lemma find_page_reference:
  assumes "send io = notion_send"
  shows "find_page_by_hevy_id io (JStr db) ''Hevy ID'' s key ''rich_text'' w =
     (Inr (case records_with (env w) db s of [] \<Rightarrow> JNull | p # ps \<Rightarrow> JStr (ident p)),
      after_send w (query_request key db s) (env w))"
proof -
  let ?req = "query_request key db s"
  have k: "known_method ?req" and s: "sent_request ?req = ?req"
    by (simp_all add: known_method_def sent_request_def query_request_def)
  have "notion_request_with_retry io (http_method ?req) (url ?req) (headers ?req) (json_data ?req) w =
      (Inr (200, JObj [(''results'',
          JArr (map (\<lambda>p. JObj [(''id'', JStr (ident p))]) (records_with (env w) db s)))], JNull),
       after_send w ?req (env w))"
    by (subst gateway_first_200 [OF k, where r = "\<lparr>status = 200, retry_after = None,
          body_json = Inr (JObj [(''results'',
            JArr (map (\<lambda>p. JObj [(''id'', JStr (ident p))]) (records_with (env w) db s)))]),
          body_text = Inr []\<rparr>"])
       (simp_all add: s assms notion_send_query ok_response_def after_send_def)
  then show ?thesis
    by (cases "records_with (env w) db s")
       (simp_all add: find_page_by_hevy_id_def query_request_def Let_def)
qed

lemma notion_send_create:
  "notion_send d (create_request key db ps) =
     (ok_response (JObj [(''id'', JStr (fresh_id (next_page d)))]), created d db ps)"
  by (simp add: notion_send_def create_request_def created_def)

lemma notion_send_patch:
  "i \<in> set (map ident (pages d)) \<Longrightarrow>
   notion_send d (patch_request key i ps) =
     (ok_response (JObj [(''id'', JStr i)]), patched d i ps)"
  by (simp add: notion_send_def patch_request_def patched_def)

lemma create_reference:
  assumes "send io = notion_send"
  shows "create_or_update_page io (JStr db) JNull (JObj ps) key w =
     (Inr (JStr (fresh_id (next_page (env w)))),
      after_send w (create_request key db ps) (created (env w) db ps))"
proof -
  let ?req = "create_request key db ps"
  have k: "known_method ?req" and s: "sent_request ?req = ?req"
    by (simp_all add: known_method_def sent_request_def create_request_def)
  have "notion_request_with_retry io (http_method ?req) (url ?req) (headers ?req) (json_data ?req) w =
      (Inr (200, JObj [(''id'', JStr (fresh_id (next_page (env w))))], JNull),
       after_send w ?req (created (env w) db ps))"
    by (subst gateway_first_200 [OF k, where r = "\<lparr>status = 200, retry_after = None,
          body_json = Inr (JObj [(''id'', JStr (fresh_id (next_page (env w))))]),
          body_text = Inr []\<rparr>"])
       (simp_all add: s assms notion_send_create ok_response_def after_send_def)
  then show ?thesis
    by (simp add: create_or_update_page_def create_request_def)
qed

lemma patch_reference:
  assumes "send io = notion_send" and "i \<noteq> []" and "i \<in> set (map ident (pages (env w)))"
  shows "create_or_update_page io (JStr db) (JStr i) (JObj ps) key w =
     (Inr (JStr i), after_send w (patch_request key i ps) (patched (env w) i ps))"
proof -
  let ?req = "patch_request key i ps"
  have k: "known_method ?req" and s: "sent_request ?req = ?req"
    by (simp_all add: known_method_def sent_request_def patch_request_def)
  have "notion_request_with_retry io (http_method ?req) (url ?req) (headers ?req) (json_data ?req) w =
      (Inr (200, JObj [(''id'', JStr i)], JNull), after_send w ?req (patched (env w) i ps))"
    by (subst gateway_first_200 [OF k, where r = "\<lparr>status = 200, retry_after = None,
          body_json = Inr (JObj [(''id'', JStr i)]), body_text = Inr []\<rparr>"])
       (simp_all add: s assms notion_send_patch [OF assms(3)] ok_response_def after_send_def)
  then show ?thesis
    using assms(2) by (simp add: create_or_update_page_def patch_request_def)
qed

lemma env_after_send [simp]: "env (after_send w req e) = e"
  by (simp add: after_send_def)

lemma resolve_and_write_reference:
  assumes "send io = notion_send" and "list_all (\<lambda>p. ident p \<noteq> []) (pages (env w))"
  shows "resolve_and_write io (JStr db) s ps key w =
     (case records_with (env w) db s of
        [] \<Rightarrow>
          (Inr (JStr (fresh_id (next_page (env w)))),
           after_send (after_send w (query_request key db s) (env w))
             (create_request key db ps) (created (env w) db ps))
      | p # rest \<Rightarrow>
          (Inr (JStr (ident p)),
           after_send (after_send w (query_request key db s) (env w))
             (patch_request key (ident p) ps) (patched (env w) (ident p) ps)))"
proof (cases "records_with (env w) db s")
  case Nil
  then show ?thesis
    by (simp add: resolve_and_write_def find_page_reference [OF assms(1)]
        create_reference [OF assms(1)])
next
  case (Cons p rest)
  then have "p \<in> set (records_with (env w) db s)" by simp
  then have "p \<in> set (pages (env w))" by (simp add: records_with_def)
  with assms(2) have ne: "ident p \<noteq> []" and mem: "ident p \<in> set (map ident (pages (env w)))"
    by (auto simp: list_all_iff)
  from mem have mem': "ident p \<in> set (map ident (pages (env (after_send w (query_request key db s) (env w)))))"
    by simp
  show ?thesis
    using Cons
    by (simp add: resolve_and_write_def find_page_reference [OF assms(1)]
        patch_reference [OF assms(1) ne mem'])
qed

lemma map_of_patch_props:
  "map_of (patch_props new old) k = (case map_of new k of Some v \<Rightarrow> Some v | None \<Rightarrow> map_of old k)"
proof -
  have "map_of (filter (\<lambda>kv. map_of new (fst kv) = None) old) k =
        (if map_of new k = None then map_of old k else None)"
    by (induction old) auto
  then show ?thesis
    by (simp add: patch_props_def map_add_def split: option.splits)
qed

lemma fresh_id_inj: "fresh_id a = fresh_id b \<Longrightarrow> a = b"
  by (simp add: fresh_id_def show_nat_inj)

lemma fresh_id_nonempty: "fresh_id n \<noteq> []"
  by (simp add: fresh_id_def)

lemma wf_idents_nonempty:
  "wf_destination d \<Longrightarrow> list_all (\<lambda>p. ident p \<noteq> []) (pages d)"
  by (auto simp: wf_destination_def list_all_iff fresh_id_nonempty)

lemma wf_created:
  assumes "wf_destination d"
  shows "wf_destination (created d db ps)"
proof -
  from assms have dist: "distinct (map ident (pages d))"
    and old: "\<forall>p\<in>set (pages d). ident p \<in> fresh_id ` {..<next_page d}"
    by (simp_all add: wf_destination_def list_all_iff)
  have "fresh_id (next_page d) \<notin> ident ` set (pages d)"
  proof
    assume "fresh_id (next_page d) \<in> ident ` set (pages d)"
    then obtain p where "p \<in> set (pages d)" "ident p = fresh_id (next_page d)" by auto
    with old obtain k where "k < next_page d" "fresh_id k = fresh_id (next_page d)" by force
    then show False by (auto dest: fresh_id_inj)
  qed
  moreover from old have "\<forall>p\<in>set (pages d). ident p \<in> fresh_id ` {..<Suc (next_page d)}"
    by (auto simp: less_Suc_eq)
  ultimately show ?thesis
    using dist by (simp add: wf_destination_def created_def list_all_iff)
qed

lemma idents_patched: "map ident (pages (patched d i ps)) = map ident (pages d)"
  by (simp add: patched_def comp_def if_distrib cong: if_cong)

lemma wf_patched: "wf_destination d \<Longrightarrow> wf_destination (patched d i ps)"
proof -
  assume wf: "wf_destination d"
  have "list_all (\<lambda>p. ident p \<in> fresh_id ` {..<next_page d}) (pages (patched d i ps)) =
        list_all (\<lambda>i. i \<in> fresh_id ` {..<next_page d}) (map ident (pages (patched d i ps)))"
    by (simp add: list_all_iff)
  also have "\<dots> = list_all (\<lambda>p. ident p \<in> fresh_id ` {..<next_page d}) (pages d)"
    by (simp only: idents_patched) (simp add: list_all_iff)
  finally show ?thesis
    using wf by (simp add: wf_destination_def idents_patched) (simp add: patched_def)
qed

lemma holds_iff:
  "holds db s p \<longleftrightarrow>
     py_str (parent p) = Inr db \<and> map_of (stored p) ''Hevy ID'' = Some (rich_text_prop s)"
  by (simp add: holds_def matches_def filter_config_def)

lemma records_with_holds: "records_with d db s = filter (holds db s) (pages d)"
  by (simp add: records_with_def holds_def [abs_def])

lemma filter_map_same:
  "(\<forall>q\<in>set xs. P (f q) = P q) \<Longrightarrow> filter P (map f xs) = map f (filter P xs)"
  by (induction xs) simp_all

lemma records_created:
  assumes "map_of ps ''Hevy ID'' = Some (rich_text_prop s)"
  shows "records_with (created d db ps) db s =
           records_with d db s @ [\<lparr>ident = fresh_id (next_page d), parent = JStr db, stored = ps\<rparr>]"
  using assms by (simp add: records_with_holds created_def holds_iff)

lemma records_patched:
  assumes "map_of ps ''Hevy ID'' = Some (rich_text_prop s)"
    and "distinct (map ident (pages d))"
    and "records_with d db s = p # rest"
  shows "records_with (patched d (ident p) ps) db s =
           map (\<lambda>q. if ident q = ident p then q\<lparr>stored := patch_props ps (stored q)\<rparr> else q)
             (records_with d db s)"
proof -
  let ?f = "\<lambda>q. if ident q = ident p then q\<lparr>stored := patch_props ps (stored q)\<rparr> else q"
  from assms(3) have "p \<in> set (records_with d db s)" by simp
  then have p: "p \<in> set (pages d)" "holds db s p"
    by (simp_all add: records_with_holds)
  have same: "holds db s (?f q) = holds db s q" if "q \<in> set (pages d)" for q
  proof (cases "ident q = ident p")
    case False
    then show ?thesis by simp
  next
    case True
    with that p(1) assms(2) have "q = p"
      by (meson distinct_map inj_onD)
    with p(2) assms(1) show ?thesis
      by (simp add: holds_iff map_of_patch_props)
  qed
  have "filter (holds db s) (map ?f (pages d)) = map ?f (filter (holds db s) (pages d))"
    by (rule filter_map_same) (simp add: same del: holds_iff)
  then show ?thesis
    by (simp add: records_with_holds patched_def)
qed

text \<open>Records that hold different source ids are different records.\<close>

lemma records_disjoint:
  assumes "s \<noteq> s'"
  shows "set (records_with d db s) \<inter> set (records_with d db' s') = {}"
  using assms
  by (auto simp: records_with_holds holds_iff rich_text_prop_def text_content_def)

section \<open>What a run sends\<close>

lemma sent_under_append: "sent_under k (xs @ ys) = sent_under k xs @ sent_under k ys"
  by (induction k xs rule: sent_under.induct) (simp_all split: json.split option.split)

text \<open>What a gateway call adds to the trace: the request, sent once or more, between
  sleeps.\<close>

lemma retry_loop_trace:
  assumes "known_method req"
  shows "\<exists>evs m. trace (snd (retry_loop io req n a w)) = trace w @ evs \<and>
           sent_under k evs = concat (replicate m (sent_under k [Send (sent_request req)])) \<and>
           (0 < n \<longrightarrow> 0 < m)"
proof (induction n arbitrary: a w)
  case 0
  have "trace (snd (retry_loop io req 0 a w)) = trace w @ [] \<and>
        sent_under k [] = concat (replicate 0 (sent_under k [Send (sent_request req)]))"
    by simp
  then show ?case by blast
next
  case (Suc n)
  let ?s = "sent_request req"
  let ?w2 = "w\<lparr>env := snd (send io (env w) ?s),
               trace := trace w @ [Sleep NOTION_REQUEST_DELAY, Send ?s]\<rparr>"
  have one: "sent_under k [Sleep NOTION_REQUEST_DELAY, Send ?s] =
               concat (replicate 1 (sent_under k [Send ?s]))"
    by simp
  show ?case
  proof (cases "attempt_step (fst (send io (env w) ?s)) a")
    case (Inl e)
    then have "trace (snd (retry_loop io req (Suc n) a w)) =
        trace w @ [Sleep NOTION_REQUEST_DELAY, Send ?s]"
      by (simp add: retry_loop_known [OF assms] Let_def)
    with one show ?thesis by (intro exI [of _ "[Sleep NOTION_REQUEST_DELAY, Send ?s]"] exI [of _ 1]) simp
  next
    case (Inr st)
    show ?thesis
    proof (cases st)
      case (Return res)
      with Inr have "trace (snd (retry_loop io req (Suc n) a w)) =
          trace w @ [Sleep NOTION_REQUEST_DELAY, Send ?s]"
        by (simp add: retry_loop_known [OF assms] Let_def)
      with one show ?thesis
        by (intro exI [of _ "[Sleep NOTION_REQUEST_DELAY, Send ?s]"] exI [of _ 1]) simp
    next
      case (Continue d)
      let ?w3 = "log_event (Sleep (of_int d)) ?w2"
      from Inr Continue have step:
        "retry_loop io req (Suc n) a w = retry_loop io req n (Suc a) ?w3"
        by (simp add: retry_loop_known [OF assms] Let_def)
      from Suc.IH [of "Suc a" ?w3] obtain evs m where
        ih: "trace (snd (retry_loop io req n (Suc a) ?w3)) = trace ?w3 @ evs"
            "sent_under k evs = concat (replicate m (sent_under k [Send ?s]))"
        by blast
      have "trace (snd (retry_loop io req (Suc n) a w)) =
          trace w @ ([Sleep NOTION_REQUEST_DELAY, Send ?s, Sleep (of_int d)] @ evs)"
        using ih(1) by (simp add: step)
      moreover have "sent_under k ([Sleep NOTION_REQUEST_DELAY, Send ?s, Sleep (of_int d)] @ evs) =
          concat (replicate (Suc m) (sent_under k [Send ?s]))"
        using ih(2) by (simp add: sent_under_append split: json.split option.split)
      ultimately show ?thesis
        by (intro exI [of _ "[Sleep NOTION_REQUEST_DELAY, Send ?s, Sleep (of_int d)] @ evs"]
            exI [of _ "Suc m"]) simp
    qed
  qed
qed

lemma gateway_trace:
  assumes "meth = ''POST'' \<or> meth = ''PATCH''"
  shows "\<exists>evs m. trace (snd (notion_request_with_retry io meth u hdrs data w)) = trace w @ evs \<and>
           sent_under k evs = concat (replicate (Suc m)
             (sent_under k [Send \<lparr>http_method = meth, url = u, headers = hdrs, json_data = data\<rparr>]))"
proof -
  let ?req = "\<lparr>http_method = meth, url = u, headers = hdrs, json_data = data\<rparr>"
  from assms have known: "known_method ?req" and s: "sent_request ?req = ?req"
    by (auto simp: known_method_def sent_request_def)
  from retry_loop_trace [OF known, where io = io and n = NOTION_MAX_RETRIES and a = 0 and w = w
      and k = k]
  obtain evs m where "trace (snd (retry_loop io ?req NOTION_MAX_RETRIES 0 w)) = trace w @ evs"
    and "sent_under k evs = concat (replicate m (sent_under k [Send ?req]))" and "0 < m"
    unfolding s by (auto simp: NOTION_MAX_RETRIES_def)
  then show ?thesis
    by (cases m) (auto simp: notion_request_with_retry_def)
qed

lemma snd_bindA_liftE: "snd (bindA m (\<lambda>x. liftE (g x)) w) = snd (m w)"
  by (cases "m w"; cases "fst (m w)") (auto simp: bindA_def)

lemma find_page_trace:
  "\<exists>evs m. trace (snd (find_page_by_hevy_id io db pname hid key kind w)) = trace w @ evs \<and>
     written evs = [] \<and>
     ((\<exists>r. fst (find_page_by_hevy_id io db pname hid key kind w) = Inr r) \<longrightarrow>
        queried evs = replicate (Suc m) (filter_config pname kind hid))"
proof (cases "py_str db")
  case (Inl e)
  then have "find_page_by_hevy_id io db pname hid key kind w = (Inl e, w)"
    by (simp add: find_page_by_hevy_id_def)
  then have "trace (snd (find_page_by_hevy_id io db pname hid key kind w)) = trace w @ []"
    and "\<not> (\<exists>r. fst (find_page_by_hevy_id io db pname hid key kind w) = Inr r)"
    by simp_all
  then show ?thesis by (intro exI [of _ "[]"]) simp
next
  case (Inr d)
  let ?data = "JObj [(''filter'', filter_config pname kind hid)]"
  let ?call = "notion_request_with_retry io ''POST''
      (''https://api.notion.com/v1/databases/'' @ d @ ''/query'') (get_notion_headers key) ?data"
  have g: "\<exists>evs m. trace (snd (?call w)) = trace w @ evs \<and>
      sent_under k evs = concat (replicate (Suc m) (sent_under k [Send
        \<lparr>http_method = ''POST'', url = ''https://api.notion.com/v1/databases/'' @ d @ ''/query'',
         headers = get_notion_headers key, json_data = ?data\<rparr>]))" for k
    by (rule gateway_trace) simp
  from g [of "''properties''"] obtain evs m where evs: "trace (snd (?call w)) = trace w @ evs"
    and w: "written evs = []"
    by auto
  from g [of "''filter''"] evs obtain m' where
    q: "queried evs = replicate (Suc m') (filter_config pname kind hid)"
    by auto
  have "snd (find_page_by_hevy_id io db pname hid key kind w) = snd (?call w)"
    using Inr
    by (simp add: find_page_by_hevy_id_def Let_def case_prod_unfold snd_bindA_liftE)
  with evs w q show ?thesis by auto
qed

lemma write_trace:
  "\<exists>evs m. trace (snd (create_or_update_page io db page_id ps key w)) = trace w @ evs \<and>
     queried evs = [] \<and>
     ((\<exists>r. fst (create_or_update_page io db page_id ps key w) = Inr r) \<longrightarrow>
        written evs = replicate (Suc m) ps)"
proof -
  let ?patch = "\<lambda>pid. notion_request_with_retry io ''PATCH''
                 (''https://api.notion.com/v1/pages/'' @ pid)
                 (get_notion_headers key) (JObj [(''properties'', ps)])"
  let ?post = "notion_request_with_retry io ''POST'' ''https://api.notion.com/v1/pages''
               (get_notion_headers key)
               (JObj [(''parent'', JObj [(''database_id'', db)]), (''properties'', ps)])"
  let ?A = "if truthy page_id then bindA (liftE (py_str page_id)) ?patch else ?post"
  have eq: "create_or_update_page io db page_id ps key =
      bindA ?A (\<lambda>(st, data, err).
          liftE (if st = 200 \<and> truthy data then dict_get data ''id'' JNull else Inr JNull))"
    by (simp add: create_or_update_page_def)
  have s: "snd (create_or_update_page io db page_id ps key w) = snd (?A w)"
    unfolding eq by (simp add: case_prod_unfold snd_bindA_liftE)
  have f: "fst (create_or_update_page io db page_id ps key w) = Inr r \<Longrightarrow>
      \<exists>x. fst (?A w) = Inr x" for r
    unfolding eq by (cases "?A w"; cases "fst (?A w)") (auto simp: bindA_def)
  show ?thesis
  proof (cases "truthy page_id")
    case False
    have g: "\<exists>evs m. trace (snd (?post w)) = trace w @ evs \<and>
        sent_under k evs = concat (replicate (Suc m) (sent_under k [Send
          \<lparr>http_method = ''POST'', url = ''https://api.notion.com/v1/pages'',
           headers = get_notion_headers key,
           json_data = JObj [(''parent'', JObj [(''database_id'', db)]),
                             (''properties'', ps)]\<rparr>]))" for k
      by (rule gateway_trace) simp
    from g [of "''properties''"] obtain evs m where evs: "trace (snd (?post w)) = trace w @ evs"
      and w: "written evs = replicate (Suc m) ps"
      by auto
    from g [of "''filter''"] evs have "queried evs = []" by auto
    with False s evs w show ?thesis by auto
  next
    case True
    show ?thesis
    proof (cases "py_str page_id")
      case (Inl e)
      with True have "?A w = (Inl e, w)" by simp
      with s f have "trace (snd (create_or_update_page io db page_id ps key w)) = trace w @ []"
        and "\<not> (\<exists>r. fst (create_or_update_page io db page_id ps key w) = Inr r)"
        by auto
      then show ?thesis by (intro exI [of _ "[]"]) simp
    next
      case (Inr pid)
      have g: "\<exists>evs m. trace (snd (?patch pid w)) = trace w @ evs \<and>
          sent_under k evs = concat (replicate (Suc m) (sent_under k [Send
            \<lparr>http_method = ''PATCH'', url = ''https://api.notion.com/v1/pages/'' @ pid,
             headers = get_notion_headers key,
             json_data = JObj [(''properties'', ps)]\<rparr>]))" for k
        by (rule gateway_trace) simp
      from g [of "''properties''"] obtain evs m where
        evs: "trace (snd (?patch pid w)) = trace w @ evs"
        and w: "written evs = replicate (Suc m) ps"
        by auto
      from g [of "''filter''"] evs have "queried evs = []" by auto
      with True Inr s evs w show ?thesis by auto
    qed
  qed
qed

text \<open>The two calls every upsert ends with: the queries ask for the source id, and the
  first page write carries the property set.\<close>

lemma resolve_and_write_trace:
  assumes "resolve_and_write io db hid ps key w = (Inr page, w2)"
  shows "\<exists>evs qs ws. trace w2 = trace w @ evs \<and>
           queried evs = filter_config ''Hevy ID'' ''rich_text'' hid # qs \<and>
           written evs = JObj ps # ws"
proof -
  let ?find = "find_page_by_hevy_id io db ''Hevy ID'' hid key ''rich_text''"
  obtain r1 w1 where f: "?find w = (r1, w1)" by (cases "?find w")
  from assms f obtain existing where r1: "r1 = Inr existing"
    by (cases r1) (simp_all add: resolve_and_write_def)
  from find_page_trace [of io db "''Hevy ID''" hid key "''rich_text''" w] f r1
  obtain evs1 m1 where e1: "trace w1 = trace w @ evs1" "written evs1 = []"
    "queried evs1 = replicate (Suc m1) (filter_config ''Hevy ID'' ''rich_text'' hid)"
    by auto
  from assms f r1 have c: "create_or_update_page io db existing (JObj ps) key w1 = (Inr page, w2)"
    by (simp add: resolve_and_write_def)
  from write_trace [of io db existing "JObj ps" key w1] c
  obtain evs2 m2 where e2: "trace w2 = trace w1 @ evs2" "queried evs2 = []"
    "written evs2 = replicate (Suc m2) (JObj ps)"
    by auto
  from e1 e2 have "trace w2 = trace w @ (evs1 @ evs2)"
    and "queried (evs1 @ evs2) = filter_config ''Hevy ID'' ''rich_text'' hid #
           replicate m1 (filter_config ''Hevy ID'' ''rich_text'' hid)"
    and "written (evs1 @ evs2) = JObj ps # replicate m2 (JObj ps)"
    by (simp_all add: sent_under_append)
  then show ?thesis by blast
qed

text \<open>Every action only adds to the trace.\<close>

lemma bindA_appends:
  assumes "\<exists>evs. trace (snd (m w)) = trace w @ evs"
    and "\<And>x w1. \<exists>evs. trace (snd (f x w1)) = trace w1 @ evs"
  shows "\<exists>evs. trace (snd (bindA m f w)) = trace w @ evs"
proof (cases "m w")
  case (Pair r w1)
  from assms(1) Pair obtain evs where evs: "trace w1 = trace w @ evs" by auto
  show ?thesis
  proof (cases r)
    case (Inl e)
    with Pair evs show ?thesis by simp
  next
    case (Inr x)
    from assms(2) [of x w1] obtain evs' where "trace (snd (f x w1)) = trace w1 @ evs'" ..
    with Pair Inr evs have "trace (snd (bindA m f w)) = trace w @ (evs @ evs')" by simp
    then show ?thesis ..
  qed
qed

lemma liftE_appends: "\<exists>evs. trace (snd (liftE r w)) = trace w @ evs"
  by simp

lemma find_page_appends:
  "\<exists>evs. trace (snd (find_page_by_hevy_id io db pname hid key kind w)) = trace w @ evs"
  using find_page_trace [of io db pname hid key kind w] by blast

lemma write_appends:
  "\<exists>evs. trace (snd (create_or_update_page io db page_id ps key w)) = trace w @ evs"
  using write_trace [of io db page_id ps key w] by blast

lemma upsert_set_appends:
  "\<exists>evs. trace (snd (upsert_set io wid wpage ex ei sd si key sdb tpage w)) = trace w @ evs"
  unfolding upsert_set_def
  by (intro bindA_appends liftE_appends) (auto intro: bindA_appends find_page_appends write_appends)

lemma gather_appends:
  assumes "\<And>t w. t \<in> set ts \<Longrightarrow> \<exists>evs. trace (snd (t w)) = trace w @ evs"
  shows "\<exists>evs. trace (snd (gather ts w)) = trace w @ evs"
  using assms
proof (induction ts arbitrary: w)
  case Nil
  then show ?case by simp
next
  case (Cons t ts)
  from Cons.prems [of t w] obtain evs where 1: "trace (snd (t w)) = trace w @ evs" by auto
  from Cons.IH [of "snd (t w)"] Cons.prems obtain evs' where
    2: "trace (snd (gather ts (snd (t w)))) = trace (snd (t w)) @ evs'" by auto
  from 1 2 have "trace (snd (gather (t # ts) w)) = trace w @ (evs @ evs')" by simp
  then show ?case ..
qed

lemma sync_workout_sets_appends:
  "\<exists>evs. trace (snd (sync_workout_sets io wid wpage exs key sdb tm w)) = trace w @ evs"
proof (cases "set_tasks exs tm")
  case (Inl e)
  then show ?thesis by (simp add: sync_workout_sets_def)
next
  case (Inr args)
  show ?thesis
  proof (cases "args = []")
    case True
    with Inr show ?thesis by (simp add: sync_workout_sets_def)
  next
    case False
    let ?tasks = "map (\<lambda>(exercise, exercise_index, set_data, set_index, page).
                        upsert_set io wid wpage exercise exercise_index
                          set_data set_index key sdb page) args"
    have "\<exists>evs. trace (snd (gather ?tasks w)) = trace w @ evs"
      by (rule gather_appends) (auto simp: upsert_set_appends)
    with Inr False show ?thesis by (simp add: sync_workout_sets_def Let_def)
  qed
qed

text \<open>An upsert is the build of a property set, then these two calls.\<close>

lemma upsert_workout_resolve:
  "upsert_workout io workout key wdb rp w =
     bindA (liftE (workout_properties (utcnow io (env w)) workout rp))
       (\<lambda>(hid, ps). resolve_and_write io wdb hid ps key) w"
  by (simp add: upsert_workout_def resolve_and_write_def)

lemma upsert_set_resolve:
  "upsert_set io wid wpage ex ei sd si key sdb tpage w =
     bindA (liftE (set_properties (utcnow io (env w)) wid wpage ex ei sd si tpage))
       (\<lambda>(cid, ps). resolve_and_write io sdb (JStr cid) ps key) w"
  by (simp add: upsert_set_def resolve_and_write_def)

lemma upsert_workout_trace:
  assumes "upsert_workout io workout key wdb rp w = (Inr page, w2)"
  shows "\<exists>hid ps evs rest. workout_properties (utcnow io (env w)) workout rp = Inr (hid, ps) \<and>
           trace w2 = trace w @ evs \<and> written evs = JObj ps # rest"
proof (cases "workout_properties (utcnow io (env w)) workout rp")
  case (Inl e)
  with assms show ?thesis by (simp add: upsert_workout_resolve)
next
  case (Inr hp)
  obtain hid ps where hp: "hp = (hid, ps)" by (cases hp)
  from assms Inr hp have "resolve_and_write io wdb hid ps key w = (Inr page, w2)"
    by (simp add: upsert_workout_resolve)
  from resolve_and_write_trace [OF this] Inr hp show ?thesis by blast
qed

lemma upsert_set_trace:
  assumes "upsert_set io wid wpage ex ei sd si key sdb tpage w = (Inr page, w2)"
  shows "\<exists>cid ps evs qs ws.
           set_properties (utcnow io (env w)) wid wpage ex ei sd si tpage = Inr (cid, ps) \<and>
           trace w2 = trace w @ evs \<and>
           queried evs = filter_config ''Hevy ID'' ''rich_text'' (JStr cid) # qs \<and>
           written evs = JObj ps # ws"
proof (cases "set_properties (utcnow io (env w)) wid wpage ex ei sd si tpage")
  case (Inl e)
  with assms show ?thesis by (simp add: upsert_set_resolve)
next
  case (Inr cp)
  obtain cid ps where cp: "cp = (cid, ps)" by (cases cp)
  from assms Inr cp have "resolve_and_write io sdb (JStr cid) ps key w = (Inr page, w2)"
    by (simp add: upsert_set_resolve)
  from resolve_and_write_trace [OF this] Inr cp show ?thesis by blast
qed

text \<open>A first sync of the sample workout into an empty destination, its routine known
  under the page id \<^verbatim>\<open>1f2e-3d4c\<close>: one query, one page creation, no sets.\<close>

lemma sample_workout_run:
  "sync_one_workout (fixed_clock notion_send) sample_workout ''secret'' (JStr ''workouts'')
     (JStr ''sets'') [(JStr ''r1'', JStr ''1f2e-3d4c'')] []
     (start \<lparr>pages = [], next_page = 0\<rparr>) =
     (Inr (1, 0),
      \<lparr>env = \<lparr>pages = [\<lparr>ident = ''page-0'', parent = JStr ''workouts'',
                stored = [(''Name'', title_prop (JStr ''Push day'')),
                          (''Hevy ID'', rich_text_prop (JStr ''w1'')),
                          (''Exercise Count'', number_prop (JInt 0)),
                          (''Total Sets'', number_prop (JInt 0)),
                          (''Last Synced'', date_prop (JStr ''2024-01-01T00:00:00'')),
                          (''Routine'', relation_prop ''1f2e3d4c'')]\<rparr>],
              next_page = 1\<rparr>,
       trace = [Sleep (1 / 2),
                Send (query_request ''secret'' ''workouts'' (JStr ''w1'')),
                Sleep (1 / 2),
                Send (create_request ''secret'' ''workouts''
                  [(''Name'', title_prop (JStr ''Push day'')),
                   (''Hevy ID'', rich_text_prop (JStr ''w1'')),
                   (''Exercise Count'', number_prop (JInt 0)),
                   (''Total Sets'', number_prop (JInt 0)),
                   (''Last Synced'', date_prop (JStr ''2024-01-01T00:00:00'')),
                   (''Routine'', relation_prop ''1f2e3d4c'')])]\<rparr>)"
proof -
  let ?io = "fixed_clock notion_send"
  let ?w = "start \<lparr>pages = [], next_page = 0\<rparr>"
  let ?ps = "[(''Name'', title_prop (JStr ''Push day'')),
              (''Hevy ID'', rich_text_prop (JStr ''w1'')),
              (''Exercise Count'', number_prop (JInt 0)),
              (''Total Sets'', number_prop (JInt 0)),
              (''Last Synced'', date_prop (JStr ''2024-01-01T00:00:00'')),
              (''Routine'', relation_prop ''1f2e3d4c'')]"
  have io: "send ?io = notion_send" by (simp add: fixed_clock_def)
  have ok: "list_all (\<lambda>p. ident p \<noteq> []) (pages (env ?w))" by (simp add: start_def)
  have none: "records_with (env ?w) ''workouts'' (JStr ''w1'') = []"
    by (simp add: records_with_def start_def)
  have up: "upsert_workout ?io sample_workout ''secret'' (JStr ''workouts'') (JStr ''1f2e-3d4c'') ?w =
      resolve_and_write ?io (JStr ''workouts'') (JStr ''w1'') ?ps ''secret'' ?w"
    by (simp add: upsert_workout_def sample_workout_properties relation_to_str
        resolve_and_write_def fixed_clock_def start_def)
  have up': "upsert_workout ?io sample_workout ''secret'' (JStr ''workouts'') (JStr ''1f2e-3d4c'') ?w =
      (Inr (JStr (fresh_id (next_page (env ?w)))),
       after_send (after_send ?w (query_request ''secret'' ''workouts'' (JStr ''w1'')) (env ?w))
         (create_request ''secret'' ''workouts'' ?ps) (created (env ?w) ''workouts'' ?ps))"
    unfolding up by (simp add: resolve_and_write_reference [OF io ok] none)
  have sets: "sync_workout_sets ?io (JStr ''w1'') page (JArr []) ''secret'' (JStr ''sets'') [] w1 =
      (Inr 0, w1)" for page w1
    by (simp add: sync_workout_sets_def set_tasks_def)
  show ?thesis
    by (simp add: sync_one_workout_def sample_workout_def [symmetric])
       (simp add: sample_workout_def mapping_get_def
          up' [unfolded sample_workout_def start_def] sets
          fresh_id_def show_nat_0 after_send_def created_def start_def NOTION_REQUEST_DELAY_def)
qed

text \<open>The first upsert of a set into an empty destination: one query for the composite
  id, one page creation.\<close>

lemma first_upsert_set:
  assumes "set_properties ''2024-01-01T00:00:00'' wid wpage ex ei sd si tpage = Inr (cid, ps)"
  shows "upsert_set (fixed_clock notion_send) wid wpage ex ei sd si key (JStr db) tpage
           (start \<lparr>pages = [], next_page = 0\<rparr>) =
         (Inr (JStr ''page-0''),
          \<lparr>env = \<lparr>pages = [\<lparr>ident = ''page-0'', parent = JStr db, stored = ps\<rparr>],
                  next_page = 1\<rparr>,
           trace = [Sleep (1 / 2), Send (query_request key db (JStr cid)),
                    Sleep (1 / 2), Send (create_request key db ps)]\<rparr>)"
proof -
  let ?io = "fixed_clock notion_send"
  let ?w = "start \<lparr>pages = [], next_page = 0\<rparr>"
  have io: "send ?io = notion_send" by (simp add: fixed_clock_def)
  have ok: "list_all (\<lambda>p. ident p \<noteq> []) (pages (env ?w))" by (simp add: start_def)
  have none: "records_with (env ?w) db (JStr cid) = []"
    by (simp add: records_with_def start_def)
  have now: "utcnow ?io (env ?w) = ''2024-01-01T00:00:00''" by (simp add: fixed_clock_def)
  have "upsert_set ?io wid wpage ex ei sd si key (JStr db) tpage ?w =
      resolve_and_write ?io (JStr db) (JStr cid) ps key ?w"
    by (simp add: upsert_set_resolve now assms)
  also have "\<dots> = (Inr (JStr (fresh_id (next_page (env ?w)))),
       after_send (after_send ?w (query_request key db (JStr cid)) (env ?w))
         (create_request key db ps) (created (env ?w) db ps))"
    by (simp add: resolve_and_write_reference [OF io ok] none)
  finally show ?thesis
    by (simp add: fresh_id_def show_nat_0 after_send_def created_def start_def
        NOTION_REQUEST_DELAY_def)
qed

section \<open>Claims about the gateway\<close>

text \<open>
  Claim C3, as amended. If every attempt of a request with a known method is answered by
  a 429 whose \<^verbatim>\<open>Retry-After\<close> header, when present, reads as an integer, then
  \<^verbatim>\<open>notion_request_with_retry\<close> sends the request exactly \<^verbatim>\<open>NOTION_MAX_RETRIES = 5\<close>
  times and returns \<^verbatim>\<open>(429, None, "Rate limited after max retries")\<close>. Each attempt is
  the pacing sleep of half a second, the send, and a sleep of \<open>retry_wait\<close> seconds:
  the header's value when the header is present, else \<open>2 * 2 ^ attempt\<close>, and never more
  than 30 in either case.
\<close>

theorem rate_limited_on_every_attempt:
  assumes "known_method req"
    and "\<forall>k<NOTION_MAX_RETRIES. rate_limited (answer io (sent_request req) (env w) k) k"
  shows "notion_request_with_retry io (http_method req) (url req) (headers req) (json_data req) w =
           (Inr (429, JNull, JStr ''Rate limited after max retries''),
            w\<lparr>env := env_after io (sent_request req) NOTION_MAX_RETRIES (env w),
              trace := trace w @ concat (map (\<lambda>k.
                 [Sleep NOTION_REQUEST_DELAY, Send (sent_request req),
                  Sleep (of_int (retry_wait (answer io (sent_request req) (env w) k) k))])
                 [0..<NOTION_MAX_RETRIES])\<rparr>)
       \<and> (\<forall>k<NOTION_MAX_RETRIES. \<forall>r.
             answer io (sent_request req) (env w) k = Responded r \<longrightarrow>
               retry_wait (Responded r) k \<le> 30 \<and>
               (retry_after r = None \<longrightarrow> retry_wait (Responded r) k = min (2 * 2 ^ k) 30) \<and>
               (\<forall>h d. retry_after r = Some h \<and> py_int_str h = Inr d \<longrightarrow>
                        retry_wait (Responded r) k = min d 30))"
proof -
  have "\<forall>k<NOTION_MAX_RETRIES. rate_limited (answer io (sent_request req) (env w) k) (0 + k)"
    using assms(2) by simp
  from retry_loop_rate_limited [OF assms(1) this]
  have first:
    "notion_request_with_retry io (http_method req) (url req) (headers req) (json_data req) w =
           (Inr (429, JNull, JStr ''Rate limited after max retries''),
            w\<lparr>env := env_after io (sent_request req) NOTION_MAX_RETRIES (env w),
              trace := trace w @ concat (map (\<lambda>k.
                 [Sleep NOTION_REQUEST_DELAY, Send (sent_request req),
                  Sleep (of_int (retry_wait (answer io (sent_request req) (env w) k) k))])
                 [0..<NOTION_MAX_RETRIES])\<rparr>)"
    by (simp add: notion_request_with_retry_def request_eta)
  have second: "retry_wait (Responded r) k \<le> 30 \<and>
               (retry_after r = None \<longrightarrow> retry_wait (Responded r) k = min (2 * 2 ^ k) 30) \<and>
               (\<forall>h d. retry_after r = Some h \<and> py_int_str h = Inr d \<longrightarrow>
                        retry_wait (Responded r) k = min d 30)" for r k
    by (auto simp: retry_wait_def header_delay_def NOTION_MAX_RETRY_DELAY_def
        NOTION_RETRY_BASE_DELAY_def split: sum.splits option.splits)
  from first second show ?thesis by blast
qed

text \<open>The run of the spec's backoff test: a 429 without the header on every attempt.
  Five sends; the sleeps after them are 2, 4, 8, 16 and 30 seconds.\<close>

theorem rate_limited_on_every_attempt_witness:
  "notion_request_with_retry (fixed_clock (always_429 None)) (http_method probe) (url probe)
     (headers probe) (json_data probe) (start ()) =
     (Inr (429, JNull, JStr ''Rate limited after max retries''),
      \<lparr>env = (), trace =
         [Sleep (1 / 2), Send probe, Sleep 2, Sleep (1 / 2), Send probe, Sleep 4,
          Sleep (1 / 2), Send probe, Sleep 8, Sleep (1 / 2), Send probe, Sleep 16,
          Sleep (1 / 2), Send probe, Sleep 30]\<rparr>)"
proof -
  have a: "answer (fixed_clock (always_429 h)) probe () k =
        Responded \<lparr>status = 429, retry_after = h,
                 body_json = Inr (JObj [(''message'', JStr ''rate limited'')]),
                 body_text = Inr ''rate limited''\<rparr>" for k h
    by (simp add: answer_def fixed_clock_def always_429_def)
  have h: "\<forall>k<NOTION_MAX_RETRIES.
      rate_limited (answer (fixed_clock (always_429 None)) (sent_request probe) (env (start ())) k) k"
    by (simp add: sent_probe start_def a rate_limited_def header_delay_def)
  show ?thesis
    using rate_limited_on_every_attempt [OF known_probe h]
    by (simp add: sent_probe start_def a retry_wait_def header_delay_def NOTION_MAX_RETRIES_def
        NOTION_REQUEST_DELAY_def NOTION_RETRY_BASE_DELAY_def NOTION_MAX_RETRY_DELAY_def
        eval_nat_numeral upt_rec)
qed

text \<open>
  Claim C3 as stated fails where the header is present and is not an integer: a
  \<^verbatim>\<open>Retry-After\<close> may be an HTTP date. Every attempt would receive the 429, but
  \<^verbatim>\<open>int\<close> raises \<^verbatim>\<open>ValueError\<close> on the first one, after a single send, and nothing is
  returned.
\<close>

theorem rate_limited_with_date_header_counterexample:
  "notion_request_with_retry (fixed_clock (always_429 (Some ''Wed, 21 Oct 2015 07:28:00 GMT'')))
     (http_method probe) (url probe) (headers probe) (json_data probe) (start ()) =
     (Inl (ValueError ''int()''), \<lparr>env = (), trace = [Sleep (1 / 2), Send probe]\<rparr>)"
  by (simp add: notion_request_with_retry_def NOTION_MAX_RETRIES_def eval_nat_numeral
      retry_loop_known known_probe [unfolded probe_def] sent_probe [unfolded probe_def]
      probe_def fixed_clock_def always_429_def start_def header_delay_def py_int_str_http_date
      attempt_step_def try_request_def NOTION_REQUEST_DELAY_def Let_def)

text \<open>
  Claim C4, as amended. On any attempt of a request with a known method, a response whose
  status is neither 200 nor 429 and whose text is read ends the loop: the caller gets
  \<^verbatim>\<open>(status, None, response text)\<close>, and the world has the pacing sleep and this one
  send added, nothing after them. The text is read inside the \<^verbatim>\<open>try\<close>: when the read
  times out, the attempt is a timed-out attempt like any other (a sleep of
  \<open>2 * 2 ^ attempt\<close> seconds and the next attempt, or the timeout triple on the last
  attempt), and when the read raises anything else, so does the call.
\<close>

theorem other_status_returned_at_once:
  assumes "known_method req"
    and "send io (env w) (sent_request req) = (Responded r, e')"
    and "status r \<noteq> 200" and "status r \<noteq> 429"
  shows "(\<forall>t. body_text r = Inr t \<longrightarrow>
            retry_loop io req (Suc n) attempt w =
              (Inr (status r, JNull, JStr t),
               w\<lparr>env := e',
                 trace := trace w @ [Sleep NOTION_REQUEST_DELAY, Send (sent_request req)]\<rparr>))
       \<and> (body_text r = Inl TimeoutError \<longrightarrow>
            retry_loop io req (Suc n) attempt w =
              (if attempt < NOTION_MAX_RETRIES - 1
               then retry_loop io req n (Suc attempt)
                      (w\<lparr>env := e',
                         trace := trace w @ [Sleep NOTION_REQUEST_DELAY, Send (sent_request req),
                           Sleep (of_int (NOTION_RETRY_BASE_DELAY * 2 ^ attempt))]\<rparr>)
               else (Inr (0, JNull, JStr ''Request timeout after retries''),
                     w\<lparr>env := e',
                       trace := trace w @
                         [Sleep NOTION_REQUEST_DELAY, Send (sent_request req)]\<rparr>)))
       \<and> (\<forall>e. body_text r = Inl e \<and> e \<noteq> TimeoutError \<longrightarrow>
            retry_loop io req (Suc n) attempt w =
              (Inl e,
               w\<lparr>env := e',
                 trace := trace w @ [Sleep NOTION_REQUEST_DELAY, Send (sent_request req)]\<rparr>))"
  using assms
  by (simp add: retry_loop_known Let_def attempt_step_other log_event_def del: of_int_mult)

theorem other_status_returned_at_once_witness:
  "notion_request_with_retry (fixed_clock refuse_all) (http_method probe) (url probe)
     (headers probe) (json_data probe) (start ()) =
     (Inr (400, JNull, JStr ''body failed validation''),
      \<lparr>env = (), trace = [Sleep (1 / 2), Send probe]\<rparr>)"
proof -
  have s: "send (fixed_clock refuse_all) (env (start ())) (sent_request probe) =
      (Responded \<lparr>status = 400, retry_after = None,
                  body_json = Inr (JObj [(''message'', JStr ''body failed validation'')]),
                  body_text = Inr ''body failed validation''\<rparr>, ())"
    by (simp add: fixed_clock_def refuse_all_def error_response_def)
  show ?thesis
    using other_status_returned_at_once [OF known_probe s, of 4 0]
    by (simp add: notion_request_with_retry_def request_eta NOTION_MAX_RETRIES_def
        eval_nat_numeral sent_probe start_def NOTION_REQUEST_DELAY_def)
qed

text \<open>
  Claim C4 as stated fails for a response whose text cannot be read. A 500 whose body
  does not arrive within the time allowed for the request is not returned: the timeout
  handler retries the request, and after five sends, each answered 500, the caller gets
  the timeout triple. A 500 whose body breaks off is not returned either: the call
  raises.
\<close>

theorem other_status_returned_at_once_counterexample:
  "notion_request_with_retry (fixed_clock (unreadable 500 TimeoutError)) (http_method probe)
     (url probe) (headers probe) (json_data probe) (start ()) =
     (Inr (0, JNull, JStr ''Request timeout after retries''),
      \<lparr>env = (), trace =
         [Sleep (1 / 2), Send probe, Sleep 2, Sleep (1 / 2), Send probe, Sleep 4,
          Sleep (1 / 2), Send probe, Sleep 8, Sleep (1 / 2), Send probe, Sleep 16,
          Sleep (1 / 2), Send probe]\<rparr>)
   \<and> notion_request_with_retry (fixed_clock (unreadable 500 (ClientError ''payload'')))
       (http_method probe) (url probe) (headers probe) (json_data probe) (start ()) =
     (Inl (ClientError ''payload''), \<lparr>env = (), trace = [Sleep (1 / 2), Send probe]\<rparr>)"
  by (simp add: notion_request_with_retry_def NOTION_MAX_RETRIES_def eval_nat_numeral
      retry_loop_known known_probe [unfolded probe_def] sent_probe [unfolded probe_def]
      probe_def fixed_clock_def unreadable_def start_def attempt_step_def try_request_def
      NOTION_REQUEST_DELAY_def NOTION_RETRY_BASE_DELAY_def Let_def log_event_def)

text \<open>
  Claim C10, as amended. A triple that \<^verbatim>\<open>notion_request_with_retry\<close> returns for a
  known method has exactly one of the four shapes of \<open>has_shape\<close>:
  \<^verbatim>\<open>(200, j, None)\<close> where \<open>j\<close> is what \<^verbatim>\<open>response.json()\<close> gave for the 200 response
  that ended the run (None when that JSON is null); \<^verbatim>\<open>(s, None, t)\<close> with the status
  \<open>s\<close> and the text \<open>t\<close> (possibly empty) of the response, neither a 200 nor a 429, that
  ended the run; \<^verbatim>\<open>(0, None, "Request timeout after retries")\<close> when the retries are
  exhausted and the last attempt timed out; \<^verbatim>\<open>(429, None, "Rate limited after max retries")\<close>
  when the retries are exhausted and the last attempt was answered 429. So a 200 never
  has an error text, and every other result has no body and an error text that is a
  string.
\<close>

theorem gateway_result_shapes:
  assumes "known_method req"
    and "notion_request_with_retry io (http_method req) (url req) (headers req) (json_data req) w =
           (Inr (st, body, err), w')"
  shows "(\<exists>!s. has_shape (answer io (sent_request req) (env w)) (st, body, err) s)
       \<and> (st = 200 \<longrightarrow> err = JNull)
       \<and> (st \<noteq> 200 \<longrightarrow> body = JNull \<and> (\<exists>t. err = JStr t))"
proof -
  from assms(2) have run: "retry_loop io req NOTION_MAX_RETRIES 0 w = (Inr (st, body, err), w')"
    by (simp add: notion_request_with_retry_def request_eta)
  from returned_shape [OF assms(1) run]
  obtain s where s: "has_shape (answer io (sent_request req) (env w)) (st, body, err) s" ..
  have "\<exists>!s. has_shape (answer io (sent_request req) (env w)) (st, body, err) s"
    using s shape_unique [OF _ s] by (intro ex1I [of _ s])
  with shape_parts [OF s] show ?thesis by simp
qed


text \<open>A service that never answers: five sends, sleeps of 2, 4, 8 and 16 seconds between
  them, and the timeout triple, which has the third shape and no other.\<close>

theorem gateway_result_shapes_witness:
  "notion_request_with_retry (fixed_clock never_answers) (http_method probe) (url probe)
     (headers probe) (json_data probe) (start ()) =
     (Inr (0, JNull, JStr ''Request timeout after retries''),
      \<lparr>env = (), trace =
         [Sleep (1 / 2), Send probe, Sleep 2, Sleep (1 / 2), Send probe, Sleep 4,
          Sleep (1 / 2), Send probe, Sleep 8, Sleep (1 / 2), Send probe, Sleep 16,
          Sleep (1 / 2), Send probe]\<rparr>)
   \<and> (\<exists>!s. has_shape (answer (fixed_clock never_answers) probe ())
              (0, JNull, JStr ''Request timeout after retries'') s)
   \<and> has_shape (answer (fixed_clock never_answers) probe ())
        (0, JNull, JStr ''Request timeout after retries'') TimeoutExhausted"
proof -
  have shape: "has_shape (answer (fixed_clock never_answers) probe ())
        (0, JNull, JStr ''Request timeout after retries'') TimeoutExhausted"
    by (simp add: has_shape_def exhausted_def timed_out_def retried_def attempt_step_def
        try_request_def answer_def fixed_clock_def never_answers_def NOTION_MAX_RETRIES_def
        list_all_iff)
  from gateway_result_shapes [OF known_probe unanswered_probe] unanswered_probe shape
  show ?thesis by (simp add: sent_probe start_def)
qed

text \<open>
  Claim C10 as stated fails twice. A non-200 result can carry an empty error string: the
  text of a 500 with an empty body. And a 200 can come without a body: a response whose
  JSON is null.
\<close>

theorem gateway_result_shapes_counterexample:
  "fst (notion_request_with_retry (fixed_clock (always_answer 500 (JObj []) []))
          (http_method probe) (url probe) (headers probe) (json_data probe) (start ())) =
     Inr (500, JNull, JStr [])
   \<and> fst (notion_request_with_retry (fixed_clock (always_answer 200 JNull []))
          (http_method probe) (url probe) (headers probe) (json_data probe) (start ())) =
     Inr (200, JNull, JNull)"
  by (simp add: refused_probe)


section \<open>Claims about the property sets\<close>

text \<open>
  Claim C5. An iteration of the loop of \<^verbatim>\<open>sync_workouts_and_sets\<close> that completes reads
  the workout's routine id, looks it up in the routine mapping when there is one
  (\<^verbatim>\<open>if routine_id\<close>), and has \<^verbatim>\<open>upsert_workout\<close> build the property set; the first page
  write the iteration sends carries that property set. When the workout has a routine id
  and the mapping has an entry for it, a page id \<open>i\<close> (a string that is not empty), the
  property set has a \<^verbatim>\<open>Routine\<close> relation to exactly \<open>i\<close> without its \<^verbatim>\<open>-\<close>
  characters. When the workout has no routine id, or the mapping has no entry for it, the
  property set has no \<^verbatim>\<open>Routine\<close> key.
\<close>

theorem routine_relation:
  assumes "sync_one_workout io workout key wdb sdb routine_mapping tm w = (Inr counts, w')"
  shows "\<exists>workout_data routine_id ps rest.
           dict_get workout ''workout'' workout = Inr workout_data \<and>
           dict_get workout_data ''routine_id'' JNull = Inr routine_id \<and>
           written (drop (length (trace w)) (trace w')) = JObj ps # rest \<and>
           (\<forall>i. truthy routine_id \<and> map_of routine_mapping routine_id = Some (JStr i) \<and> i \<noteq> [] \<longrightarrow>
              map_of ps ''Routine'' = Some (relation_prop (filter (\<lambda>c. c \<noteq> CHR ''-'') i))) \<and>
           (\<not> truthy routine_id \<or> map_of routine_mapping routine_id = None \<longrightarrow>
              map_of ps ''Routine'' = None)"
proof -
  note run = assms [unfolded sync_one_workout_def]
  obtain workout_data where wd: "dict_get workout ''workout'' workout = Inr workout_data"
    using run by (cases "dict_get workout ''workout'' workout") simp_all
  obtain routine_id where rid: "dict_get workout_data ''routine_id'' JNull = Inr routine_id"
    using run wd by (cases "dict_get workout_data ''routine_id'' JNull") simp_all
  let ?lookup = "if truthy routine_id then mapping_get routine_mapping routine_id else Inr JNull"
  obtain rp where rp: "?lookup = Inr rp"
    using run wd rid by (cases ?lookup) simp_all
  let ?rest = "\<lambda>workout_page_id.
     if truthy workout_page_id then
       bindA (liftE (dict_get workout_data ''exercises'' (JArr []))) (\<lambda>exercises.
       bindA (liftE (dict_get workout_data ''id'' (JStr []))) (\<lambda>workout_id.
       bindA (sync_workout_sets io workout_id workout_page_id exercises key sdb tm)
         (\<lambda>sets_synced. liftE (Inr (1 :: int, sets_synced)))))
     else liftE (Inr (0 :: int, 0 :: int))"
  from run wd rid rp
  have run': "bindA (upsert_workout io workout key wdb rp) ?rest w = (Inr counts, w')"
    by simp
  obtain r w2 where up: "upsert_workout io workout key wdb rp w = (r, w2)"
    by (cases "upsert_workout io workout key wdb rp w")
  from run' up obtain page where r: "r = Inr page" by (cases r) simp_all
  from run' up r have rest: "?rest page w2 = (Inr counts, w')" by simp
  have "\<exists>evs. trace (snd (?rest page w2)) = trace w2 @ evs"
    by (cases "truthy page")
       (auto intro!: bindA_appends liftE_appends sync_workout_sets_appends
          simp del: bindA_liftE liftE_apply)
  then obtain evs' where "trace (snd (?rest page w2)) = trace w2 @ evs'" ..
  then have after: "trace w' = trace w2 @ evs'" unfolding rest by (simp only: snd_conv)
  from upsert_workout_trace [OF up [unfolded r]]
  obtain hid ps evs rest' where
    props: "workout_properties (utcnow io (env w)) workout rp = Inr (hid, ps)"
    and tr: "trace w2 = trace w @ evs" and wr: "written evs = JObj ps # rest'"
    by blast
  from after tr wr
  have first: "written (drop (length (trace w)) (trace w')) = JObj ps # (rest' @ written evs')"
    by (simp add: sent_under_append)
  have with_entry: "map_of ps ''Routine'' = Some (relation_prop (filter (\<lambda>c. c \<noteq> CHR ''-'') i))"
    if "truthy routine_id" and "map_of routine_mapping routine_id = Some (JStr i)" and "i \<noteq> []"
    for i
  proof -
    from that(1) rp obtain k where k: "hashable routine_id = Inr k"
      and v: "rp = (case map_of routine_mapping k of Some v \<Rightarrow> v | None \<Rightarrow> JNull)"
      by (auto simp: mapping_get_def bindE_eq_Inr)
    from k have "k = routine_id" by (cases routine_id) simp_all
    with v that(2) have "rp = JStr i" by simp
    with workout_properties_routine [OF props] that(3) show ?thesis
      by (simp add: relation_to_str)
  qed
  have without: "map_of ps ''Routine'' = None"
    if "\<not> truthy routine_id \<or> map_of routine_mapping routine_id = None"
  proof -
    have "rp = JNull"
    proof (cases "truthy routine_id")
      case False
      with rp show ?thesis by simp
    next
      case True
      with that have none: "map_of routine_mapping routine_id = None" by simp
      from True rp obtain k where k: "hashable routine_id = Inr k"
        and v: "rp = (case map_of routine_mapping k of Some v \<Rightarrow> v | None \<Rightarrow> JNull)"
        by (auto simp: mapping_get_def bindE_eq_Inr)
      from k have "k = routine_id" by (cases routine_id) simp_all
      with v none show ?thesis by simp
    qed
    with workout_properties_routine [OF props] show ?thesis by simp
  qed
  show ?thesis
  proof (intro exI conjI allI impI)
    show "dict_get workout ''workout'' workout = Inr workout_data" by (rule wd)
    show "dict_get workout_data ''routine_id'' JNull = Inr routine_id" by (rule rid)
    show "written (drop (length (trace w)) (trace w')) = JObj ps # (rest' @ written evs')"
      by (rule first)
  next
    fix i
    assume "truthy routine_id \<and> map_of routine_mapping routine_id = Some (JStr i) \<and> i \<noteq> []"
    then show "map_of ps ''Routine'' = Some (relation_prop (filter (\<lambda>c. c \<noteq> CHR ''-'') i))"
      using with_entry [of i] by simp
  next
    assume "\<not> truthy routine_id \<or> map_of routine_mapping routine_id = None"
    then show "map_of ps ''Routine'' = None" by (rule without)
  qed
qed


text \<open>The first sync of the sample workout: the page created for it is related to the
  routine's page.\<close>

theorem routine_relation_witness:
  "sync_one_workout (fixed_clock notion_send) sample_workout ''secret'' (JStr ''workouts'')
     (JStr ''sets'') [(JStr ''r1'', JStr ''1f2e-3d4c'')] []
     (start \<lparr>pages = [], next_page = 0\<rparr>) =
     (Inr (1, 0),
      \<lparr>env = \<lparr>pages = [\<lparr>ident = ''page-0'', parent = JStr ''workouts'',
                stored = [(''Name'', title_prop (JStr ''Push day'')),
                          (''Hevy ID'', rich_text_prop (JStr ''w1'')),
                          (''Exercise Count'', number_prop (JInt 0)),
                          (''Total Sets'', number_prop (JInt 0)),
                          (''Last Synced'', date_prop (JStr ''2024-01-01T00:00:00'')),
                          (''Routine'', relation_prop ''1f2e3d4c'')]\<rparr>],
              next_page = 1\<rparr>,
       trace = [Sleep (1 / 2),
                Send (query_request ''secret'' ''workouts'' (JStr ''w1'')),
                Sleep (1 / 2),
                Send (create_request ''secret'' ''workouts''
                  [(''Name'', title_prop (JStr ''Push day'')),
                   (''Hevy ID'', rich_text_prop (JStr ''w1'')),
                   (''Exercise Count'', number_prop (JInt 0)),
                   (''Total Sets'', number_prop (JInt 0)),
                   (''Last Synced'', date_prop (JStr ''2024-01-01T00:00:00'')),
                   (''Routine'', relation_prop ''1f2e3d4c'')])]\<rparr>)
   \<and> (\<exists>ps rest.
         written [Sleep (1 / 2),
                  Send (query_request ''secret'' ''workouts'' (JStr ''w1'')),
                  Sleep (1 / 2),
                  Send (create_request ''secret'' ''workouts''
                    [(''Name'', title_prop (JStr ''Push day'')),
                     (''Hevy ID'', rich_text_prop (JStr ''w1'')),
                     (''Exercise Count'', number_prop (JInt 0)),
                     (''Total Sets'', number_prop (JInt 0)),
                     (''Last Synced'', date_prop (JStr ''2024-01-01T00:00:00'')),
                     (''Routine'', relation_prop ''1f2e3d4c'')])] = JObj ps # rest \<and>
         map_of ps ''Routine'' = Some (relation_prop ''1f2e3d4c''))"
proof -
  from routine_relation [OF sample_workout_run]
  obtain workout_data routine_id ps rest where
    wd: "dict_get sample_workout ''workout'' sample_workout = Inr workout_data"
    and rid: "dict_get workout_data ''routine_id'' JNull = Inr routine_id"
    and wr: "written (drop (length (trace (start \<lparr>pages = [], next_page = 0\<rparr>)))
        [Sleep (1 / 2),
         Send (query_request ''secret'' ''workouts'' (JStr ''w1'')),
         Sleep (1 / 2),
         Send (create_request ''secret'' ''workouts''
           [(''Name'', title_prop (JStr ''Push day'')),
            (''Hevy ID'', rich_text_prop (JStr ''w1'')),
            (''Exercise Count'', number_prop (JInt 0)),
            (''Total Sets'', number_prop (JInt 0)),
            (''Last Synced'', date_prop (JStr ''2024-01-01T00:00:00'')),
            (''Routine'', relation_prop ''1f2e3d4c'')])]) = JObj ps # rest"
    and rel: "\<forall>i. truthy routine_id \<and>
          map_of [(JStr ''r1'', JStr ''1f2e-3d4c'')] routine_id = Some (JStr i) \<and> i \<noteq> [] \<longrightarrow>
          map_of ps ''Routine'' = Some (relation_prop (filter (\<lambda>c. c \<noteq> CHR ''-'') i))"
    by auto
  from wd have "workout_data = sample_workout" by (simp add: sample_workout_def)
  with rid have "routine_id = JStr ''r1''" by (simp add: sample_workout_def)
  with rel have "map_of ps ''Routine'' = Some (relation_prop ''1f2e3d4c'')" by simp
  with wr have "\<exists>ps rest.
         written [Sleep (1 / 2),
                  Send (query_request ''secret'' ''workouts'' (JStr ''w1'')),
                  Sleep (1 / 2),
                  Send (create_request ''secret'' ''workouts''
                    [(''Name'', title_prop (JStr ''Push day'')),
                     (''Hevy ID'', rich_text_prop (JStr ''w1'')),
                     (''Exercise Count'', number_prop (JInt 0)),
                     (''Total Sets'', number_prop (JInt 0)),
                     (''Last Synced'', date_prop (JStr ''2024-01-01T00:00:00'')),
                     (''Routine'', relation_prop ''1f2e3d4c'')])] = JObj ps # rest \<and>
         map_of ps ''Routine'' = Some (relation_prop ''1f2e3d4c'')"
    by (simp add: start_def)
  with sample_workout_run show ?thesis by (rule conjI)
qed


text \<open>
  Claim C8. An \<^verbatim>\<open>upsert_set\<close> that completes builds the composite id
  \<^verbatim>\<open>{workout_id}-{exercise_index}-{set_index}\<close> from the two positions, counted from 0.
  The query of the Resolver asks for the records whose \<^verbatim>\<open>Hevy ID\<close> is this id, and the
  property set of the page write stores it under \<^verbatim>\<open>Hevy ID\<close>; its \<^verbatim>\<open>Exercise Order\<close>
  and \<^verbatim>\<open>Set Number\<close> are the positions plus one. A set of the same workout at another
  pair of positions has another composite id, and no record of the destination holds
  both ids: the two lookups never select the same record.
\<close>

theorem composite_set_key:
  assumes "upsert_set io workout_id workout_page_id exercise exercise_index set_data set_index
             key sets_db_id template_page_id w = (Inr page, w')"
  shows "\<exists>wid ps qs ws.
           py_str workout_id = Inr wid \<and>
           queried (drop (length (trace w)) (trace w')) =
             filter_config ''Hevy ID'' ''rich_text''
               (JStr (composite_set_id wid exercise_index set_index)) # qs \<and>
           written (drop (length (trace w)) (trace w')) = JObj ps # ws \<and>
           map_of ps ''Hevy ID'' =
             Some (rich_text_prop (JStr (composite_set_id wid exercise_index set_index))) \<and>
           map_of ps ''Exercise Order'' = Some (number_prop (JInt (int exercise_index + 1))) \<and>
           map_of ps ''Set Number'' = Some (number_prop (JInt (int set_index + 1))) \<and>
           (\<forall>ei si. (ei, si) \<noteq> (exercise_index, set_index) \<longrightarrow>
              composite_set_id wid ei si \<noteq> composite_set_id wid exercise_index set_index \<and>
              (\<forall>d db. set (records_with d db (JStr (composite_set_id wid ei si))) \<inter>
                       set (records_with d db
                              (JStr (composite_set_id wid exercise_index set_index))) = {}))"
proof -
  from upsert_set_trace [OF assms]
  obtain cid ps evs qs ws where
    props: "set_properties (utcnow io (env w)) workout_id workout_page_id exercise exercise_index
              set_data set_index template_page_id = Inr (cid, ps)"
    and tr: "trace w' = trace w @ evs"
    and q: "queried evs = filter_config ''Hevy ID'' ''rich_text'' (JStr cid) # qs"
    and wr: "written evs = JObj ps # ws"
    by blast
  from set_properties_id [OF props] obtain wid where wid: "py_str workout_id = Inr wid"
    and cid: "cid = composite_set_id wid exercise_index set_index"
    by blast
  have other: "composite_set_id wid ei si \<noteq> composite_set_id wid exercise_index set_index \<and>
        (\<forall>d db. set (records_with d db (JStr (composite_set_id wid ei si))) \<inter>
                 set (records_with d db
                        (JStr (composite_set_id wid exercise_index set_index))) = {})"
    if "(ei, si) \<noteq> (exercise_index, set_index)" for ei si
  proof -
    from that composite_set_id_inj [of wid ei si exercise_index set_index]
    have ne: "composite_set_id wid ei si \<noteq> composite_set_id wid exercise_index set_index"
      by auto
    then have "JStr (composite_set_id wid ei si) \<noteq>
               JStr (composite_set_id wid exercise_index set_index)"
      by simp
    from records_disjoint [OF this] ne show ?thesis by blast
  qed
  show ?thesis
  proof (intro exI conjI allI impI)
    show "py_str workout_id = Inr wid" by (rule wid)
    show "queried (drop (length (trace w)) (trace w')) =
            filter_config ''Hevy ID'' ''rich_text''
              (JStr (composite_set_id wid exercise_index set_index)) # qs"
      using tr q cid by simp
    show "written (drop (length (trace w)) (trace w')) = JObj ps # ws"
      using tr wr by simp
    show "map_of ps ''Hevy ID'' =
            Some (rich_text_prop (JStr (composite_set_id wid exercise_index set_index)))"
      using set_properties_hevy_id [OF props] cid by simp
    show "map_of ps ''Exercise Order'' = Some (number_prop (JInt (int exercise_index + 1)))"
      by (rule set_properties_order [OF props])
    show "map_of ps ''Set Number'' = Some (number_prop (JInt (int set_index + 1)))"
      by (rule set_properties_number [OF props])
  next
    fix ei si
    assume "(ei, si) \<noteq> (exercise_index, set_index)"
    from other [OF this]
    show "composite_set_id wid ei si \<noteq> composite_set_id wid exercise_index set_index"
      by blast
  next
    fix ei si d db
    assume "(ei, si) \<noteq> (exercise_index, set_index)"
    from other [OF this]
    show "set (records_with d db (JStr (composite_set_id wid ei si))) \<inter>
          set (records_with d db (JStr (composite_set_id wid exercise_index set_index))) = {}"
      by blast
  qed
qed

text \<open>The second set of the first exercise of workout \<^verbatim>\<open>w1\<close>, synced into an empty
  destination: looked up and stored as \<^verbatim>\<open>w1-0-1\<close>, shown as set 2 of exercise 1; the
  set before it has the id \<^verbatim>\<open>w1-0-0\<close>.\<close>

theorem composite_set_key_witness:
  "(\<exists>ps ws.
      written [Sleep (1 / 2), Send (query_request ''secret'' ''sets'' (JStr ''w1-0-1'')),
               Sleep (1 / 2),
               Send (create_request ''secret'' ''sets''
                 [(''Exercise Name'', title_prop (JStr ''Squat'')),
                  (''Hevy ID'', rich_text_prop (JStr ''w1-0-1'')),
                  (''Exercise Order'', number_prop (JInt 1)),
                  (''Set Number'', number_prop (JInt 2)),
                  (''Set Type'', select_prop (JStr ''normal'')),
                  (''Last Synced'', date_prop (JStr ''2024-01-01T00:00:00'')),
                  (''Workout'', relation_prop ''1f2e3d4c''),
                  (''Weight (lb)'', number_prop (JFloat (round_double (22046 / 100)))),
                  (''Reps'', number_prop (JInt 5))])] = JObj ps # ws \<and>
      map_of ps ''Hevy ID'' = Some (rich_text_prop (JStr ''w1-0-1'')) \<and>
      map_of ps ''Exercise Order'' = Some (number_prop (JInt 1)) \<and>
      map_of ps ''Set Number'' = Some (number_prop (JInt 2)))
   \<and> queried [Sleep (1 / 2), Send (query_request ''secret'' ''sets'' (JStr ''w1-0-1'')),
               Sleep (1 / 2),
               Send (create_request ''secret'' ''sets''
                 [(''Exercise Name'', title_prop (JStr ''Squat'')),
                  (''Hevy ID'', rich_text_prop (JStr ''w1-0-1'')),
                  (''Exercise Order'', number_prop (JInt 1)),
                  (''Set Number'', number_prop (JInt 2)),
                  (''Set Type'', select_prop (JStr ''normal'')),
                  (''Last Synced'', date_prop (JStr ''2024-01-01T00:00:00'')),
                  (''Workout'', relation_prop ''1f2e3d4c''),
                  (''Weight (lb)'', number_prop (JFloat (round_double (22046 / 100)))),
                  (''Reps'', number_prop (JInt 5))])] =
       [filter_config ''Hevy ID'' ''rich_text'' (JStr ''w1-0-1'')]
   \<and> composite_set_id ''w1'' 0 0 \<noteq> composite_set_id ''w1'' 0 1"
proof -
  let ?tr = "[Sleep (1 / 2), Send (query_request ''secret'' ''sets'' (JStr ''w1-0-1'')),
               Sleep (1 / 2),
               Send (create_request ''secret'' ''sets''
                 [(''Exercise Name'', title_prop (JStr ''Squat'')),
                  (''Hevy ID'', rich_text_prop (JStr ''w1-0-1'')),
                  (''Exercise Order'', number_prop (JInt 1)),
                  (''Set Number'', number_prop (JInt 2)),
                  (''Set Type'', select_prop (JStr ''normal'')),
                  (''Last Synced'', date_prop (JStr ''2024-01-01T00:00:00'')),
                  (''Workout'', relation_prop ''1f2e3d4c''),
                  (''Weight (lb)'', number_prop (JFloat (round_double (22046 / 100)))),
                  (''Reps'', number_prop (JInt 5))])]"
  note run = first_upsert_set [OF sample_set_properties, of "''secret''" "''sets''"]
  from composite_set_key [OF run]
  obtain wid ps qs ws where
    wid: "py_str (JStr ''w1'') = Inr wid"
    and wr: "written (drop (length (trace (start \<lparr>pages = [], next_page = 0\<rparr>))) ?tr) =
               JObj ps # ws"
    and hid: "map_of ps ''Hevy ID'' = Some (rich_text_prop (JStr (composite_set_id wid 0 1)))"
    and ord: "map_of ps ''Exercise Order'' = Some (number_prop (JInt (int 0 + 1)))"
    and num: "map_of ps ''Set Number'' = Some (number_prop (JInt (int 1 + 1)))"
    and other: "\<forall>ei si. (ei, si) \<noteq> (0, 1) \<longrightarrow>
                  composite_set_id wid ei si \<noteq> composite_set_id wid 0 1 \<and>
                  (\<forall>d db. set (records_with d db (JStr (composite_set_id wid ei si))) \<inter>
                           set (records_with d db (JStr (composite_set_id wid 0 1))) = {})"
    by auto
  from wid have w1: "wid = ''w1''" by simp
  have c: "composite_set_id ''w1'' 0 1 = ''w1-0-1''"
    by (simp add: composite_set_id_def show_nat_0 show_nat_1)
  from other w1 have ne: "composite_set_id ''w1'' 0 0 \<noteq> composite_set_id ''w1'' 0 1"
    by auto
  from wr hid ord num w1 c have
    "\<exists>ps ws. written ?tr = JObj ps # ws \<and>
       map_of ps ''Hevy ID'' = Some (rich_text_prop (JStr ''w1-0-1'')) \<and>
       map_of ps ''Exercise Order'' = Some (number_prop (JInt 1)) \<and>
       map_of ps ''Set Number'' = Some (number_prop (JInt 2))"
    by (simp add: start_def)
  moreover have "queried ?tr = [filter_config ''Hevy ID'' ''rich_text'' (JStr ''w1-0-1'')]"
    by (simp add: query_request_def create_request_def)
  ultimately show ?thesis using ne by blast
qed





end
